theory Spec2Isabelle
  imports Main "HOL-Library.Word"
begin

unbundle bit_operations_syntax

section \<open>The meta path based loader of compiled modules\<close>

text \<open>
  A shallow embedding of \<^verbatim>\<open>nuitka/build/static_src/MetaPathBasedLoader.cpp\<close>.

  \<^item> C strings are \<open>string\<close>: the bytes before the terminating NUL, so \<open>strcmp(a, b) == 0\<close>
    is equality of the two lists.
  \<^item> A table (\<open>loader_entries\<close>, \<open>PyImport_FrozenModules\<close>) is the list of its entries before
    the terminator whose name is NULL. A pointer to a table is an address; \<open>NULL\<close> is 0.
  \<^item> A \<open>PyObject *\<close> is an \<open>option\<close>: \<open>None\<close> is the C NULL. Objects with attributes live
    in a heap, a reference is an index into it, and a new object is appended to it.
  \<^item> The interpreter's error indicator is a field of the state; \<open>ERROR_OCCURRED()\<close> reads it.
  \<^item> \<open>assert(c)\<close> is the check it is written as: a false condition ends the process
    (\<open>AssertionFailure\<close>); \<open>abort()\<close> ends it with \<open>Abort\<close>; a write beyond a fixed size
    buffer, a call through a NULL function pointer and a read through a NULL pointer are
    \<open>Undefined\<close>. No code runs after any of the three.
  \<^item> The preprocessor conditions (\<open>PYTHON_VERSION\<close>, \<open>_WIN32\<close>, \<open>_NUITKA_STANDALONE\<close>),
    the constants of headers that are not part of this file and the functions of the host
    interpreter and of the platform are fields of the environment \<open>env\<close>.
  \<^item> The calls the loader makes to code it does not own are recorded, in order, in the
    \<open>trace\<close> of the state, as are its writes to the module table and to attributes. The
    call of an entry point is recorded with the \<open>_Py_PackageContext\<close> that is in force during
    it, which is how the entry point receives the name. Foreign code sees and changes the
    interpreter state \<open>py_state\<close> only.
  \<^item> Reference counts, the verbose output (\<open>Py_VerboseFlag\<close>), the failure of memory
    allocation, the error mode of Windows (\<open>SetErrorMode\<close>) and the \<open>m_init\<close> field of a
    module definition are not modelled. The operations start from their parsed arguments;
    \<open>is_package\<close> and \<open>module_repr\<close> are left out.
\<close>

subsection \<open>Data\<close>

type_synonym addr = nat
type_synonym ref = nat
type_synonym handle = nat

definition NULL :: addr where
  "NULL = 0"

datatype exc_type = ImportError | SystemError | KeyError | AttributeError | TypeError | OtherError

type_synonym py_exception = "exc_type \<times> string"

datatype py_value = Py_None | Py_Str string | Py_List "py_value list" | Py_Ref ref | Py_Method string

datatype code_object = Code_object nat

text \<open>
  The interpreter state: \<open>_Py_PackageContext\<close>, the error indicator, \<open>sys.modules\<close>
  (\<open>PyImport_GetModuleDict()\<close>), the attribute dictionaries of the objects, and \<open>sys.meta_path\<close>.
\<close>

record py_state =
  Py_PackageContext :: "string option"
  error_occurred :: "py_exception option"
  modules :: "string \<rightharpoonup> ref"
  heap :: "(string \<rightharpoonup> py_value) list"
  meta_path :: "ref list"

text \<open>\<^verbatim>\<open>struct Nuitka_MetaPathBasedLoaderEntry\<close>, as this file uses its fields.\<close>

record entry =
  name :: string
  python_initfunc :: "(py_state \<Rightarrow> py_state) option"
  bytecode_str :: "8 word list"
  bytecode_size :: int
  flags :: "32 word"

datatype event =
    Call_initfunc string
  | Call_dlopen string
  | Call_dlsym string
  | Call_entrypoint string "string option"
  | Dict_SetItem_modules string ref
  | Object_SetAttr ref string "py_value option"
  | Exec_code string code_object string
  | Import_frozen string
  | Import_module string
  | Call_object py_value "py_value list"

text \<open>The two static variables of the file, the interpreter and the trace.\<close>

record state =
  loader_entries :: addr
  metapath_based_loader :: "ref option"
  py :: py_state
  trace :: "event list"

datatype fatal = Abort | AssertionFailure | Undefined

datatype 'a outcome = Return 'a state | Fatal fatal "event list"

fun trace_of :: "'a outcome \<Rightarrow> event list" where
  "trace_of (Return r s) = trace s"
| "trace_of (Fatal k t) = t"

type_synonym entrypoint_t = "py_state \<Rightarrow> ref option \<times> py_state"

record env =
  PYTHON_VERSION :: nat
  WIN32 :: bool
  NUITKA_STANDALONE :: bool
  osdefs_SEP :: char
  MAXPATHLEN :: nat
  NUITKA_SHLIB_FLAG :: "32 word"
  NUITKA_BYTECODE_FLAG :: "32 word"
  NUITKA_PACKAGE_FLAG :: "32 word"
  tables :: "addr \<Rightarrow> entry list"
  PyImport_FrozenModules :: "string list"
  getBinaryDirectoryHostEncoded :: string
  MAKE_RELATIVE_PATH :: "string \<Rightarrow> string"
  dlopen :: "string \<Rightarrow> handle option"
  dlerror :: "string \<Rightarrow> string option"
  dlsym :: "handle \<Rightarrow> string \<Rightarrow> entrypoint_t option"
  PyModule_GetDef :: "ref \<Rightarrow> py_state \<Rightarrow> bool"
  PyImport_FixupExtension ::
    "ref \<Rightarrow> string \<Rightarrow> string \<Rightarrow> py_state \<Rightarrow> py_exception option \<times> (string \<rightharpoonup> ref)"
  PyMarshal_ReadObjectFromString :: "8 word list \<Rightarrow> int \<Rightarrow> code_object option"
  PyImport_ExecCodeModuleEx ::
    "string \<Rightarrow> code_object \<Rightarrow> string \<Rightarrow> py_state \<Rightarrow> ref option \<times> py_state"
  PyImport_ImportFrozenModule :: "string \<Rightarrow> py_state \<Rightarrow> int \<times> py_state"
  PyImport_ImportModule :: "string \<Rightarrow> py_state \<Rightarrow> ref option \<times> py_state"
  PyObject_CallFunctionObjArgs ::
    "py_value \<Rightarrow> py_value list \<Rightarrow> py_state \<Rightarrow> py_value option \<times> py_state"

text \<open>\<open>SEP\<close> comes from \<^verbatim>\<open>osdefs.h\<close>; on \<open>_WIN32\<close> the file redefines it as the backslash.\<close>

definition SEP :: "env \<Rightarrow> char" where
  "SEP E = (if WIN32 E then CHR 0x5C else osdefs_SEP E)"

subsection \<open>Finding\<close>

text \<open>\<open>hasFrozenModule\<close>: the scan of \<open>PyImport_FrozenModules\<close> up to its terminator.\<close>

fun hasFrozenModule :: "string list \<Rightarrow> string \<Rightarrow> bool" where
  "hasFrozenModule [] nm = False"
| "hasFrozenModule (p # ps) nm = (if p = nm then True else hasFrozenModule ps nm)"

text \<open>The \<open>while\<close> loop of \<open>_path_unfreezer_find_module\<close> over the entry table.\<close>

fun find_module_loop :: "entry list \<Rightarrow> string \<Rightarrow> bool" where
  "find_module_loop [] nm = False"
| "find_module_loop (current # rest) nm =
     (if nm = name current then True else find_module_loop rest nm)"

text \<open>\<open>INCREASE_REFCOUNT(metapath_based_loader)\<close> as a return value: NULL is dereferenced.\<close>

definition return_loader :: "state \<Rightarrow> py_value option outcome" where
  "return_loader s =
     (case metapath_based_loader s of
        None \<Rightarrow> Fatal Undefined (trace s)
      | Some l \<Rightarrow> Return (Some (Py_Ref l)) s)"

text \<open>
  \<open>_path_unfreezer_find_module\<close>, from the parsed argument \<open>fullname\<close> on. The function
  reads \<open>loader_entries\<close> without a check.
\<close>

definition path_unfreezer_find_module :: "env \<Rightarrow> string \<Rightarrow> state \<Rightarrow> py_value option outcome" where
  "path_unfreezer_find_module E nm s =
     (if loader_entries s = NULL then Fatal Undefined (trace s)
      else if find_module_loop (tables E (loader_entries s)) nm then return_loader s
      else if hasFrozenModule (PyImport_FrozenModules E) nm then return_loader s
      else Return (Some Py_None) s)"

subsection \<open>Host operations on the modelled state\<close>

text \<open>
  The functions of the C API of the host that the loader applies to the module table and to
  attributes, by their documented behaviour on the modelled part of the interpreter.
\<close>

definition set_error :: "py_exception \<Rightarrow> state \<Rightarrow> state" where
  "set_error x s = s\<lparr>py := (py s)\<lparr>error_occurred := Some x\<rparr>\<rparr>"

text \<open>
  Modelled from the spec: \<open>LOOKUP_SUBSCRIPT\<close> is a helper of the repository that is not in
  this file. On the module table it gives the entry under the name ("returns a borrowed
  lookup result"), and NULL with a \<open>KeyError\<close> set when there is none.
\<close>

definition LOOKUP_SUBSCRIPT_modules :: "string \<Rightarrow> state \<Rightarrow> ref option \<times> state" where
  "LOOKUP_SUBSCRIPT_modules module_name s =
     (case modules (py s) module_name of
        None \<Rightarrow> (None, set_error (KeyError, module_name) s)
      | Some m \<Rightarrow> (Some m, s))"

text \<open>\<open>PyModule_New\<close>: a new module object, which has its name.\<close>

definition PyModule_New :: "string \<Rightarrow> py_state \<Rightarrow> ref \<times> py_state" where
  "PyModule_New nm p = (length (heap p), p\<lparr>heap := heap p @ [[''__name__'' \<mapsto> Py_Str nm]]\<rparr>)"

text \<open>\<open>PyDict_SetItemString\<close> on the module table.\<close>

definition PyDict_SetItemString_modules :: "string \<Rightarrow> ref \<Rightarrow> state \<Rightarrow> state" where
  "PyDict_SetItemString_modules nm m s =
     s\<lparr>py := (py s)\<lparr>modules := (modules (py s))(nm \<mapsto> m)\<rparr>,
       trace := trace s @ [Dict_SetItem_modules nm m]\<rparr>"

text \<open>
  \<open>PyObject_SetAttr\<close>: with the value NULL it deletes the attribute. The result is 0, or -1
  with an error set.
\<close>

definition PyObject_SetAttr :: "ref \<Rightarrow> string \<Rightarrow> py_value option \<Rightarrow> state \<Rightarrow> int \<times> state" where
  "PyObject_SetAttr obj k v s =
     (let s1 = s\<lparr>trace := trace s @ [Object_SetAttr obj k v]\<rparr>
      in if length (heap (py s1)) \<le> obj then (- 1, set_error (TypeError, k) s1)
         else if v = None \<and> (heap (py s1) ! obj) k = None then (- 1, set_error (AttributeError, k) s1)
         else (0, s1\<lparr>py := (py s1)\<lparr>heap := (heap (py s1))[obj := (heap (py s1) ! obj)(k := v)]\<rparr>\<rparr>))"

text \<open>\<open>PyModule_AddStringConstant\<close>, through the same attribute write.\<close>

definition PyModule_AddStringConstant :: "ref \<Rightarrow> string \<Rightarrow> string \<Rightarrow> state \<Rightarrow> int \<times> state" where
  "PyModule_AddStringConstant m k v s = PyObject_SetAttr m k (Some (Py_Str v)) s"

definition PyObject_GetAttrString :: "ref \<Rightarrow> string \<Rightarrow> py_state \<Rightarrow> py_value option \<times> py_state" where
  "PyObject_GetAttrString obj k p =
     (if length (heap p) \<le> obj then (None, p\<lparr>error_occurred := Some (TypeError, k)\<rparr>)
      else case (heap p ! obj) k of
             None \<Rightarrow> (None, p\<lparr>error_occurred := Some (AttributeError, k)\<rparr>)
           | Some v \<Rightarrow> (Some v, p))"

text \<open>\<open>PyList_Insert\<close>: an index beyond the end appends.\<close>

definition PyList_Insert :: "'a list \<Rightarrow> nat \<Rightarrow> 'a \<Rightarrow> 'a list" where
  "PyList_Insert xs i x = take i xs @ [x] @ drop i xs"

subsection \<open>Registry lookup and triggers\<close>

fun findEntry_loop :: "entry list \<Rightarrow> string \<Rightarrow> entry option" where
  "findEntry_loop [] nm = None"
| "findEntry_loop (current # rest) nm =
     (if nm = name current then Some current else findEntry_loop rest nm)"

text \<open>\<open>findEntry\<close>, with its \<open>assert( current )\<close>.\<close>

definition findEntry :: "env \<Rightarrow> string \<Rightarrow> state \<Rightarrow> entry option outcome" where
  "findEntry E nm s =
     (if loader_entries s = NULL then Fatal AssertionFailure (trace s)
      else Return (findEntry_loop (tables E (loader_entries s)) nm) s)"

text \<open>
  \<open>loadTriggeredModule\<close>: the trigger's name is built by \<open>strcpy\<close> and \<open>strcat\<close> in a buffer
  of 2048 bytes; the entry's \<open>python_initfunc\<close> is called without a check.
\<close>

definition loadTriggeredModule :: "env \<Rightarrow> string \<Rightarrow> string \<Rightarrow> state \<Rightarrow> unit outcome" where
  "loadTriggeredModule E nm trigger_name s =
     (if 2048 < length nm + length trigger_name + 1 then Fatal Undefined (trace s)
      else (case findEntry E (nm @ trigger_name) s of
              Fatal k t \<Rightarrow> Fatal k t
            | Return None s1 \<Rightarrow> Return () s1
            | Return (Some e) s1 \<Rightarrow>
                (case python_initfunc e of
                   None \<Rightarrow> Fatal Undefined (trace s1)
                 | Some f \<Rightarrow>
                     (let s2 = s1\<lparr>py := f (py s1), trace := trace s1 @ [Call_initfunc (name e)]\<rparr>
                      in (if error_occurred (py s2) \<noteq> None then Fatal Abort (trace s2)
                          else Return () s2)))))"

fun copyModulenameAsPath :: "char \<Rightarrow> string \<Rightarrow> string" where
  "copyModulenameAsPath sep [] = []"
| "copyModulenameAsPath sep (c # module_name) =
     (if c = CHR ''.'' then sep # copyModulenameAsPath sep module_name
      else c # copyModulenameAsPath sep module_name)"

subsection \<open>Shared libraries\<close>

text \<open>\<open>strrchr\<close>: the rest of the string from the last occurrence of the character on.\<close>

definition strrchr :: "string \<Rightarrow> char \<Rightarrow> string option" where
  "strrchr str c =
     (if c \<in> set str then Some (c # rev (takeWhile (\<lambda>x. x \<noteq> c) (rev str))) else None)"

text \<open>The \<open>snprintf\<close> into \<open>entry_function_name[1024]\<close>: at most 1023 bytes are kept.\<close>

definition entry_function_name :: "env \<Rightarrow> string \<Rightarrow> string" where
  "entry_function_name E nm =
     take 1023 ((if PYTHON_VERSION E < 300 then ''init'' else ''PyInit_'') @ nm)"

text \<open>
  \<open>callIntoShlibModule\<close>. \<open>dlopen\<close> and \<open>dlsym\<close> of the environment stand for
  \<open>LoadLibraryEx\<close> and \<open>GetProcAddress\<close> on \<open>_WIN32\<close>. Before Python 3 the entry point returns
  nothing and the module is read from the module table; \<open>PyImport_FixupExtension\<close> stands for
  the fix-up call of the version, which fails with an error or rebinds the module table.
\<close>

definition callIntoShlibModule :: "env \<Rightarrow> string \<Rightarrow> string \<Rightarrow> state \<Rightarrow> ref option outcome" where
  "callIntoShlibModule E full_name filename s =
     (let dot = strrchr full_name (CHR ''.'');
          package = (case dot of None \<Rightarrow> None | Some d \<Rightarrow> Some full_name);
          nm = (case dot of None \<Rightarrow> full_name | Some d \<Rightarrow> tl d);
          symbol = entry_function_name E nm;
          s1 = s\<lparr>trace := trace s @ [Call_dlopen filename]\<rparr>
      in (case dlopen E filename of
            None \<Rightarrow>
              Return None
                (set_error
                   (ImportError,
                    (if WIN32 E
                     then ''LoadLibraryEx '' @ [CHR 0x27] @ filename @ [CHR 0x27] @ '' failed''
                     else (case dlerror E filename of
                             None \<Rightarrow> ''unknown dlopen() error''
                           | Some msg \<Rightarrow> msg)))
                   s1)
          | Some h \<Rightarrow>
              (let s2 = s1\<lparr>trace := trace s1 @ [Call_dlsym symbol]\<rparr>
               in (case dlsym E h symbol of
                     None \<Rightarrow> Fatal AssertionFailure (trace s2)
                   | Some entrypoint \<Rightarrow>
                       (let old_context = Py_PackageContext (py s2);
                            called = entrypoint ((py s2)\<lparr>Py_PackageContext := package\<rparr>);
                            s3 = s2\<lparr>py := (snd called)\<lparr>Py_PackageContext := old_context\<rparr>,
                                    trace := trace s2 @ [Call_entrypoint symbol package]\<rparr>;
                            module = (if PYTHON_VERSION E < 300 then modules (py s3) full_name
                                      else fst called)
                        in (case module of
                              None \<Rightarrow>
                                Return None
                                  (set_error
                                     (SystemError, ''dynamic module not initialized properly'') s3)
                            | Some m \<Rightarrow>
                                (if 300 \<le> PYTHON_VERSION E \<and> \<not> PyModule_GetDef E m (py s3)
                                 then Return None
                                        (set_error
                                           (SystemError,
                                            ''initialization of '' @ filename
                                              @ '' did not return an extension module'')
                                           s3)
                                 else
                                   (let added = PyModule_AddStringConstant m ''__file__'' filename s3;
                                        s4 = (if fst added < 0
                                              then (snd added)
                                                     \<lparr>py := (py (snd added))\<lparr>error_occurred := None\<rparr>\<rparr>
                                              else snd added);
                                        fixed = PyImport_FixupExtension E m full_name filename (py s4)
                                    in (case fst fixed of
                                          Some x \<Rightarrow> Return None (set_error x s4)
                                        | None \<Rightarrow>
                                            Return (Some m)
                                              (s4\<lparr>py := (py s4)\<lparr>modules := snd fixed\<rparr>\<rparr>))))))))))"

subsection \<open>Loading\<close>

text \<open>The end of \<open>loadModule\<close>, after the dispatch on the kind of the entry.\<close>

definition loadModule_return :: "string \<Rightarrow> state \<Rightarrow> ref option outcome" where
  "loadModule_return module_name s =
     (if error_occurred (py s) \<noteq> None then Return None s
      else case LOOKUP_SUBSCRIPT_modules module_name s of (r, s1) \<Rightarrow> Return r s1)"

text \<open>
  \<open>loadModule\<close>. The file name of a shared library is built in \<open>filename[MAXPATHLEN + 1]\<close>,
  the path of a bytecode module in \<open>buffer[1024]\<close>.
\<close>

definition loadModule :: "env \<Rightarrow> string \<Rightarrow> entry \<Rightarrow> state \<Rightarrow> ref option outcome" where
  "loadModule E module_name e s =
     (if NUITKA_STANDALONE E \<and> flags e AND NUITKA_SHLIB_FLAG E \<noteq> 0 then
        (let filename =
               getBinaryDirectoryHostEncoded E @ [SEP E] @ copyModulenameAsPath (SEP E) (name e)
                 @ (if WIN32 E then ''.pyd'' else ''.so'')
         in (if MAXPATHLEN E < length filename then Fatal Undefined (trace s)
             else (case callIntoShlibModule E (name e) filename s of
                     Fatal k t \<Rightarrow> Fatal k t
                   | Return r s1 \<Rightarrow> loadModule_return module_name s1)))
      else if flags e AND NUITKA_BYTECODE_FLAG E \<noteq> 0 then
        (case PyMarshal_ReadObjectFromString E (bytecode_str e) (bytecode_size e) of
           None \<Rightarrow> Fatal Abort (trace s)
         | Some code \<Rightarrow>
             (if modules (py s) (name e) \<noteq> None then Fatal AssertionFailure (trace s)
              else
                (let created = PyModule_New (name e) (py s);
                     module = fst created;
                     s1 = PyDict_SetItemString_modules (name e) module (s\<lparr>py := snd created\<rparr>);
                     is_package = (flags e AND NUITKA_PACKAGE_FLAG E \<noteq> 0);
                     directory = copyModulenameAsPath (SEP E) (name e);
                     buffer = (if is_package then directory @ [SEP E] @ ''__init__.py''
                               else directory @ ''.py'')
                 in (if 1024 < length buffer + 1 then Fatal Undefined (trace s1)
                     else
                       (let module_path = MAKE_RELATIVE_PATH E buffer;
                            path_set =
                              (if is_package
                               then PyObject_SetAttr module ''__path__''
                                      (Some (Py_List [Py_Str (MAKE_RELATIVE_PATH E directory)])) s1
                               else (0, s1));
                            s2 = snd path_set
                        in (if fst path_set \<noteq> 0 then Return None s2
                            else
                              (let executed =
                                     PyImport_ExecCodeModuleEx E (name e) code module_path (py s2);
                                   s3 = s2\<lparr>py := snd executed,
                                           trace := trace s2 @ [Exec_code (name e) code module_path]\<rparr>
                               in (if 330 \<le> PYTHON_VERSION E then
                                     (case fst executed of
                                        None \<Rightarrow> Fatal Undefined (trace s3)
                                      | Some m \<Rightarrow>
                                          (let loader_set =
                                                 PyObject_SetAttr m ''__loader__''
                                                   (map_option Py_Ref (metapath_based_loader s3)) s3
                                           in (if fst loader_set \<noteq> 0 then Return None (snd loader_set)
                                               else loadModule_return module_name (snd loader_set))))
                                   else loadModule_return module_name s3))))))))
      else if flags e AND NUITKA_SHLIB_FLAG E \<noteq> 0 then Fatal AssertionFailure (trace s)
      else (case python_initfunc e of
              None \<Rightarrow> Fatal AssertionFailure (trace s)
            | Some f \<Rightarrow>
                loadModule_return module_name
                  (s\<lparr>py := f (py s), trace := trace s @ [Call_initfunc (name e)]\<rparr>)))"

text \<open>The frozen import of \<open>IMPORT_COMPILED_MODULE\<close>: the result of the host, when it is called.\<close>

definition import_frozen :: "env \<Rightarrow> string \<Rightarrow> state \<Rightarrow> int \<times> state" where
  "import_frozen E nm s =
     (let imported = PyImport_ImportFrozenModule E nm (py s)
      in (fst imported, s\<lparr>py := snd imported, trace := trace s @ [Import_frozen nm]\<rparr>))"

text \<open>
  \<open>IMPORT_COMPILED_MODULE\<close>. The result is a module, \<open>Py_None\<close>, or NULL with an error set.
\<close>

definition IMPORT_COMPILED_MODULE :: "env \<Rightarrow> string \<Rightarrow> string \<Rightarrow> state \<Rightarrow> py_value option outcome" where
  "IMPORT_COMPILED_MODULE E module_name nm s =
     (case findEntry E nm s of
        Fatal k t \<Rightarrow> Fatal k t
      | Return entry s0 \<Rightarrow>
          (let frozen_import = (entry = None \<and> hasFrozenModule (PyImport_FrozenModules E) nm)
           in (case (if entry \<noteq> None \<or> frozen_import
                     then loadTriggeredModule E nm ''-preLoad'' s0
                     else Return () s0) of
                 Fatal k t \<Rightarrow> Fatal k t
               | Return u s1 \<Rightarrow>
                   (case (case entry of
                            None \<Rightarrow> Return None s1
                          | Some e \<Rightarrow> loadModule E module_name e s1) of
                      Fatal k t \<Rightarrow> Fatal k t
                    | Return loaded s2 \<Rightarrow>
                        (if entry \<noteq> None \<and> loaded = None then Return None s2
                         else
                           (let frozen = (if frozen_import then import_frozen E nm s2 else (0, s2));
                                s3 = snd frozen
                            in (if frozen_import \<and> fst frozen = - 1 then Return None s3
                                else
                                  (let looked = (if frozen_import \<and> fst frozen = 1
                                                 then LOOKUP_SUBSCRIPT_modules module_name s3
                                                 else (loaded, s3))
                                   in (case fst looked of
                                         None \<Rightarrow> Return (Some Py_None) (snd looked)
                                       | Some m \<Rightarrow>
                                           (case loadTriggeredModule E nm ''-postLoad'' (snd looked) of
                                              Fatal k t \<Rightarrow> Fatal k t
                                            | Return u s5 \<Rightarrow> Return (Some (Py_Ref m)) s5))))))))))"

text \<open>\<open>_path_unfreezer_load_module\<close>, from the parsed argument on.\<close>

definition path_unfreezer_load_module :: "env \<Rightarrow> string \<Rightarrow> state \<Rightarrow> py_value option outcome" where
  "path_unfreezer_load_module E module_name s = IMPORT_COMPILED_MODULE E module_name module_name s"

text \<open>
  \<open>_path_unfreezer_find_spec\<close> (Python 3.4 and later), from the parsed arguments on. A NULL
  \<open>metapath_based_loader\<close> would end the argument list of the call.
\<close>

definition path_unfreezer_find_spec :: "env \<Rightarrow> string \<Rightarrow> state \<Rightarrow> py_value option outcome" where
  "path_unfreezer_find_spec E nm s =
     (case findEntry E nm s of
        Fatal k t \<Rightarrow> Fatal k t
      | Return None s1 \<Rightarrow> Return (Some Py_None) s1
      | Return (Some e) s1 \<Rightarrow>
          (let imported = PyImport_ImportModule E ''importlib._bootstrap'' (py s1);
               s2 = s1\<lparr>py := snd imported,
                       trace := trace s1 @ [Import_module ''importlib._bootstrap'']\<rparr>
           in (case fst imported of
                 None \<Rightarrow> Return None s2
               | Some importlib \<Rightarrow>
                   (let got = PyObject_GetAttrString importlib ''ModuleSpec'' (py s2);
                        s3 = s2\<lparr>py := snd got\<rparr>
                    in (case fst got of
                          None \<Rightarrow> Return None s3
                        | Some module_spec_class \<Rightarrow>
                            (let args = Py_Str nm #
                                   (case metapath_based_loader s3 of
                                      None \<Rightarrow> []
                                    | Some l \<Rightarrow> [Py_Ref l]);
                                 made = PyObject_CallFunctionObjArgs E module_spec_class args (py s3)
                             in Return (fst made)
                                  (s3\<lparr>py := snd made,
                                      trace := trace s3 @ [Call_object module_spec_class args]\<rparr>)))))))"

subsection \<open>Registration\<close>

text \<open>The method dictionary of the loader class, as the versions fill it.\<close>

definition method_dict :: "env \<Rightarrow> string \<rightharpoonup> py_value" where
  "method_dict E =
     (let d0 = [''find_module'' \<mapsto> Py_Method ''_path_unfreezer_find_module'',
                ''load_module'' \<mapsto> Py_Method ''_path_unfreezer_load_module'',
                ''is_package'' \<mapsto> Py_Method ''_path_unfreezer_is_package''];
          d1 = (if 330 \<le> PYTHON_VERSION E then d0(''__module__'' \<mapsto> Py_None) else d0)
      in if 340 \<le> PYTHON_VERSION E
         then d1(''module_repr'' \<mapsto> Py_Method ''_path_unfreezer_repr_module'',
                 ''find_spec'' \<mapsto> Py_Method ''_path_unfreezer_find_spec'')
         else d1)"

text \<open>
  \<open>registerMetaPathBasedUnfreezer\<close>. The call of \<open>type\<close> makes the class
  \<open>_nuitka_compiled_modules_loader\<close>, a new object that has the methods.
\<close>

definition registerMetaPathBasedUnfreezer :: "env \<Rightarrow> addr \<Rightarrow> state \<Rightarrow> unit outcome" where
  "registerMetaPathBasedUnfreezer E new_loader_entries s =
     (if loader_entries s \<noteq> NULL then
        (if new_loader_entries = loader_entries s then Return () s
         else Fatal AssertionFailure (trace s))
      else
        let loader = length (heap (py s));
            class = (method_dict E)(''__name__'' \<mapsto> Py_Str ''_nuitka_compiled_modules_loader'')
        in Return ()
             (s\<lparr>loader_entries := new_loader_entries,
                metapath_based_loader := Some loader,
                py := (py s)\<lparr>heap := heap (py s) @ [class],
                             meta_path := PyList_Insert (meta_path (py s))
                                            (if PYTHON_VERSION E < 330 then 0 else 2) loader\<rparr>\<rparr>))"

subsection \<open>Notions for stating the properties\<close>

text \<open>
  The trace of the outcome of an operation is the trace of the state it started in, followed
  by events that all satisfy \<open>P\<close>.
\<close>

definition emits_only :: "(event \<Rightarrow> bool) \<Rightarrow> state \<Rightarrow> 'a outcome \<Rightarrow> bool" where
  "emits_only P s out \<longleftrightarrow> (\<exists>evs. trace_of out = trace s @ evs \<and> list_all P evs)"

text \<open>The events that loading the entry of a given name can add: no trigger, no frozen import.\<close>

fun load_event :: "string \<Rightarrow> event \<Rightarrow> bool" where
  "load_event n (Call_initfunc x) = (x = n)"
| "load_event n (Import_frozen x) = False"
| "load_event n (Import_module x) = False"
| "load_event n (Call_object f args) = False"
| "load_event n (Call_dlopen f) = True"
| "load_event n (Call_dlsym f) = True"
| "load_event n (Call_entrypoint f c) = True"
| "load_event n (Dict_SetItem_modules x m) = True"
| "load_event n (Object_SetAttr m k v) = True"
| "load_event n (Exec_code x c f) = True"

text \<open>The attribute of the module that an operation returned.\<close>

definition returned_attr :: "string \<Rightarrow> ref option outcome \<Rightarrow> py_value option" where
  "returned_attr k out =
     (case out of
        Fatal f t \<Rightarrow> None
      | Return r s \<Rightarrow>
          (case r of
             None \<Rightarrow> None
           | Some m \<Rightarrow> (if m < length (heap (py s)) then (heap (py s) ! m) k else None)))"


subsection \<open>A packaged program\<close>

text \<open>
  A registry and a host on which the operations can be run: the package \<open>app\<close> and its
  module \<open>app.util\<close> as bytecode, a compiled module \<open>native\<close> with its two triggers, the
  extension module \<open>pkg.sub.ext\<close>, and a module \<open>zipimport\<close> that is also frozen in the host.
\<close>

definition demo_initfunc :: "string \<Rightarrow> py_state \<Rightarrow> py_state" where
  "demo_initfunc nm p =
     p\<lparr>heap := heap p @ [[''__name__'' \<mapsto> Py_Str nm]], modules := (modules p)(nm \<mapsto> length (heap p))\<rparr>"

definition demo_table :: "entry list" where
  "demo_table =
     [\<lparr>name = ''app'', python_initfunc = None, bytecode_str = [99, 0], bytecode_size = 2,
       flags = 6\<rparr>,
      \<lparr>name = ''app.util'', python_initfunc = None, bytecode_str = [99, 1], bytecode_size = 2,
       flags = 4\<rparr>,
      \<lparr>name = ''native-preLoad'', python_initfunc = Some (demo_initfunc ''native-preLoad''),
       bytecode_str = [], bytecode_size = 0, flags = 0\<rparr>,
      \<lparr>name = ''native'', python_initfunc = Some (demo_initfunc ''native''),
       bytecode_str = [], bytecode_size = 0, flags = 0\<rparr>,
      \<lparr>name = ''native-postLoad'', python_initfunc = Some (demo_initfunc ''native-postLoad''),
       bytecode_str = [], bytecode_size = 0, flags = 0\<rparr>,
      \<lparr>name = ''pkg.sub.ext'', python_initfunc = None, bytecode_str = [], bytecode_size = 0,
       flags = 1\<rparr>,
      \<lparr>name = ''zipimport'', python_initfunc = Some (demo_initfunc ''zipimport''),
       bytecode_str = [], bytecode_size = 0, flags = 0\<rparr>]"

text \<open>
  The entry point of the extension module: it makes a module named by the package context
  it finds, and clears the context, as the module initialisation of the host does.
\<close>

definition demo_entrypoint :: entrypoint_t where
  "demo_entrypoint p =
     (Some (length (heap p)),
      p\<lparr>heap := heap p @ [[''__name__'' \<mapsto> Py_Str (case Py_PackageContext p of None \<Rightarrow> ''ext'' | Some c \<Rightarrow> c)]],
        Py_PackageContext := None\<rparr>)"

definition demo_env :: env where
  "demo_env =
     \<lparr>PYTHON_VERSION = 340, WIN32 = False, NUITKA_STANDALONE = True, osdefs_SEP = CHR ''/'',
      MAXPATHLEN = 4096, NUITKA_SHLIB_FLAG = 1, NUITKA_BYTECODE_FLAG = 4, NUITKA_PACKAGE_FLAG = 2,
      tables = (\<lambda>a. if a = 1 then demo_table else []),
      PyImport_FrozenModules = [''__hello__'', ''zipimport''],
      getBinaryDirectoryHostEncoded = ''/opt/dist'',
      MAKE_RELATIVE_PATH = (\<lambda>rel. ''/opt/dist/'' @ rel),
      dlopen = (\<lambda>f. if f = ''/opt/dist/pkg/sub/ext.so'' then Some 7 else None),
      dlerror = (\<lambda>f. Some ''cannot open shared object file''),
      dlsym = (\<lambda>h symbol. if h = 7 \<and> symbol = ''PyInit_ext'' then Some demo_entrypoint else None),
      PyModule_GetDef = (\<lambda>m p. True),
      PyImport_FixupExtension = (\<lambda>m nm f p. (None, (modules p)(nm \<mapsto> m))),
      PyMarshal_ReadObjectFromString = (\<lambda>b n. if n = 2 then Some (Code_object 0) else None),
      PyImport_ExecCodeModuleEx = (\<lambda>nm c f p. (modules p nm, p)),
      PyImport_ImportFrozenModule = (\<lambda>nm p. (1, demo_initfunc nm p)),
      PyImport_ImportModule = (\<lambda>nm p. (None, p\<lparr>error_occurred := Some (ImportError, nm)\<rparr>)),
      PyObject_CallFunctionObjArgs = (\<lambda>f args p. (Some Py_None, p))\<rparr>"



definition demo_py :: py_state where
  "demo_py =
     \<lparr>Py_PackageContext = None, error_occurred = None, modules = Map.empty, heap = [],
      meta_path = []\<rparr>"

text \<open>The state of a process before the registration, and after it.\<close>

definition demo_start :: state where
  "demo_start = \<lparr>loader_entries = NULL, metapath_based_loader = None, py = demo_py, trace = []\<rparr>"

definition demo_state :: state where
  "demo_state =
     \<lparr>loader_entries = 1, metapath_based_loader = Some 0,
      py = demo_py\<lparr>heap := [(method_dict demo_env)(''__name__'' \<mapsto> Py_Str ''_nuitka_compiled_modules_loader'')],
                  meta_path := [0]\<rparr>,
      trace = []\<rparr>"

section \<open>Properties\<close>

subsection \<open>The loops and the names\<close>

lemma hasFrozenModule_iff: "hasFrozenModule ps nm \<longleftrightarrow> nm \<in> set ps"
  by (induction ps) auto

lemma find_module_loop_iff: "find_module_loop es nm \<longleftrightarrow> nm \<in> name ` set es"
  by (induction es) auto

lemma findEntry_loop_None: "findEntry_loop es nm = None \<longleftrightarrow> nm \<notin> name ` set es"
  by (induction es) auto

lemma findEntry_loop_Some: "findEntry_loop es nm = Some e \<Longrightarrow> name e = nm \<and> e \<in> set es"
  by (induction es) (auto split: if_splits)

lemma copyModulenameAsPath_map:
  "copyModulenameAsPath sep nm = map (\<lambda>c. if c = CHR ''.'' then sep else c) nm"
  by (induction nm) auto

lemma strrchr_no_dot: "c \<notin> set str \<Longrightarrow> strrchr str c = None"
  by (simp add: strrchr_def)

lemma strrchr_last:
  assumes "c \<notin> set leaf"
  shows "strrchr (pkg @ c # leaf) c = Some (c # leaf)"
proof -
  have "takeWhile (\<lambda>x. x \<noteq> c) (rev leaf @ c # rev pkg)
          = rev leaf @ takeWhile (\<lambda>x. x \<noteq> c) (c # rev pkg)"
    using assms by (intro takeWhile_append2) auto
  then show ?thesis
    by (simp add: strrchr_def)
qed

lemma leaf_of_name:
  assumes "CHR ''.'' \<notin> set leaf" and "full_name = leaf \<or> full_name = pkg @ CHR ''.'' # leaf"
  shows "(case strrchr full_name (CHR ''.'') of None \<Rightarrow> full_name | Some d \<Rightarrow> tl d) = leaf"
  using assms by (auto simp: strrchr_no_dot strrchr_last)

subsection \<open>What a shared library load does\<close>

lemma callIntoShlibModule_context:
  "callIntoShlibModule E full_name filename s = Return r s' \<Longrightarrow>
     Py_PackageContext (py s') = Py_PackageContext (py s)"
  by (auto simp: callIntoShlibModule_def Let_def set_error_def PyModule_AddStringConstant_def
      PyObject_SetAttr_def split: option.splits if_splits)

lemma callIntoShlibModule_trace:
  "\<exists>rest. trace_of (callIntoShlibModule E full_name filename s) = trace s @ Call_dlopen filename # rest
     \<and> (\<forall>h. dlopen E filename = Some h \<longrightarrow>
          (\<exists>rest'. rest =
             Call_dlsym (entry_function_name E
               (case strrchr full_name (CHR ''.'') of None \<Rightarrow> full_name | Some d \<Rightarrow> tl d)) # rest'
           \<and> (\<forall>entrypoint. dlsym E h (entry_function_name E
                 (case strrchr full_name (CHR ''.'') of None \<Rightarrow> full_name | Some d \<Rightarrow> tl d))
                   = Some entrypoint \<longrightarrow>
                (\<exists>rest''. rest' =
                   Call_entrypoint (entry_function_name E
                     (case strrchr full_name (CHR ''.'') of None \<Rightarrow> full_name | Some d \<Rightarrow> tl d))
                     (case strrchr full_name (CHR ''.'') of None \<Rightarrow> None | Some d \<Rightarrow> Some full_name)
                   # rest''))))"
  by (auto simp: callIntoShlibModule_def Let_def set_error_def PyModule_AddStringConstant_def
      PyObject_SetAttr_def split: option.splits)

lemma loadModule_return_trace: "trace_of (loadModule_return module_name s) = trace s"
  by (simp add: loadModule_return_def LOOKUP_SUBSCRIPT_modules_def set_error_def
      split: option.splits)

lemma trace_of_then_return:
  "trace_of (case out of Fatal k t \<Rightarrow> Fatal k t | Return r s1 \<Rightarrow> loadModule_return module_name s1)
     = trace_of out"
  by (cases out) (simp_all add: loadModule_return_trace)

lemma loadModule_shlib_trace:
  assumes "NUITKA_STANDALONE E" and "flags e AND NUITKA_SHLIB_FLAG E \<noteq> 0"
    and "length (getBinaryDirectoryHostEncoded E @ [SEP E] @ copyModulenameAsPath (SEP E) (name e)
           @ (if WIN32 E then ''.pyd'' else ''.so'')) \<le> MAXPATHLEN E"
  shows "trace_of (loadModule E module_name e s)
          = trace_of (callIntoShlibModule E (name e)
              (getBinaryDirectoryHostEncoded E @ [SEP E] @ copyModulenameAsPath (SEP E) (name e)
                 @ (if WIN32 E then ''.pyd'' else ''.so'')) s)"
proof -
  from assms(3)
  have "\<not> MAXPATHLEN E < length (getBinaryDirectoryHostEncoded E @ [SEP E]
           @ copyModulenameAsPath (SEP E) (name e) @ (if WIN32 E then ''.pyd'' else ''.so''))"
    by (simp only: not_less)
  then show ?thesis
    unfolding loadModule_def Let_def using assms(1,2)
    by (simp only: simp_thms if_True if_False trace_of_then_return)
qed

subsection \<open>The events of the operations\<close>

lemma emits_only_same: "trace_of out = trace s \<Longrightarrow> emits_only P s out"
  by (simp add: emits_only_def)

lemma emits_only_after:
  assumes "trace s1 = trace s @ evs" and "list_all P evs" and "emits_only P s1 out"
  shows "emits_only P s out"
  using assms by (auto simp: emits_only_def)

lemma emits_only_seq:
  assumes "emits_only P s out"
    and "\<And>r s1. out = Return r s1 \<Longrightarrow> emits_only P s1 (g r s1)"
  shows "emits_only P s (case out of Fatal k t \<Rightarrow> Fatal k t | Return r s1 \<Rightarrow> g r s1)"
proof (cases out)
  case (Return r s1)
  with assms(1) obtain evs where "trace s1 = trace s @ evs" "list_all P evs"
    by (auto simp: emits_only_def)
  with assms(2) [OF Return] Return show ?thesis
    by (auto intro: emits_only_after)
next
  case (Fatal k t)
  with assms(1) show ?thesis by (simp add: emits_only_def)
qed

lemma emits_only_mono:
  "emits_only P s out \<Longrightarrow> (\<And>ev. P ev \<Longrightarrow> Q ev) \<Longrightarrow> emits_only Q s out"
  by (auto simp: emits_only_def list_all_iff)

lemma loadTriggeredModule_emits:
  "emits_only (\<lambda>ev. ev = Call_initfunc (nm @ trigger_name)) s
     (loadTriggeredModule E nm trigger_name s)"
  by (auto simp: loadTriggeredModule_def findEntry_def emits_only_def Let_def
      dest: findEntry_loop_Some split: option.splits)

lemma PyObject_SetAttr_trace:
  "trace (snd (PyObject_SetAttr obj k v s)) = trace s @ [Object_SetAttr obj k v]"
  by (simp add: PyObject_SetAttr_def Let_def set_error_def)

lemma callIntoShlibModule_emits:
  "emits_only (load_event n) s (callIntoShlibModule E full_name filename s)"
  by (auto simp: callIntoShlibModule_def Let_def set_error_def PyModule_AddStringConstant_def
      PyObject_SetAttr_def emits_only_def split: option.splits)

lemma loadModule_return_emits: "emits_only P s (loadModule_return module_name s)"
  by (simp add: emits_only_same loadModule_return_trace)

lemma loadModule_emits: "emits_only (load_event (name e)) s (loadModule E module_name e s)"
proof (cases "NUITKA_STANDALONE E \<and> flags e AND NUITKA_SHLIB_FLAG E \<noteq> 0")
  case True
  have "emits_only (load_event (name e)) s
          (case callIntoShlibModule E (name e) filename s of
             Fatal k t \<Rightarrow> Fatal k t
           | Return r s1 \<Rightarrow> loadModule_return module_name s1)" for filename
    by (intro emits_only_seq callIntoShlibModule_emits loadModule_return_emits)
  with True show ?thesis
    by (simp add: loadModule_def Let_def emits_only_same)
next
  case False
  then show ?thesis
    by (auto simp: loadModule_def Let_def emits_only_def loadModule_return_trace
        PyObject_SetAttr_trace PyDict_SetItemString_modules_def
        split: option.splits)
qed

subsection \<open>The three ways through the import\<close>

lemma IMPORT_found:
  assumes "loader_entries s \<noteq> NULL"
    and "findEntry_loop (tables E (loader_entries s)) nm = Some e"
  shows "IMPORT_COMPILED_MODULE E module_name nm s =
     (case loadTriggeredModule E nm ''-preLoad'' s of
        Fatal k t \<Rightarrow> Fatal k t
      | Return u s1 \<Rightarrow>
          (case loadModule E module_name e s1 of
             Fatal k t \<Rightarrow> Fatal k t
           | Return loaded s2 \<Rightarrow>
               (case loaded of
                  None \<Rightarrow> Return None s2
                | Some m \<Rightarrow>
                    (case loadTriggeredModule E nm ''-postLoad'' s2 of
                       Fatal k t \<Rightarrow> Fatal k t
                     | Return u s5 \<Rightarrow> Return (Some (Py_Ref m)) s5))))"
  using assms
  by (simp add: IMPORT_COMPILED_MODULE_def findEntry_def Let_def
      split: outcome.splits option.splits)

lemma IMPORT_frozen:
  assumes "loader_entries s \<noteq> NULL"
    and "findEntry_loop (tables E (loader_entries s)) nm = None"
    and "nm \<in> set (PyImport_FrozenModules E)"
  shows "IMPORT_COMPILED_MODULE E module_name nm s =
     (case loadTriggeredModule E nm ''-preLoad'' s of
        Fatal k t \<Rightarrow> Fatal k t
      | Return u s1 \<Rightarrow>
          (if fst (import_frozen E nm s1) = - 1 then Return None (snd (import_frozen E nm s1))
           else if fst (import_frozen E nm s1) = 1 then
             (case fst (LOOKUP_SUBSCRIPT_modules module_name (snd (import_frozen E nm s1))) of
                None \<Rightarrow>
                  Return (Some Py_None)
                    (snd (LOOKUP_SUBSCRIPT_modules module_name (snd (import_frozen E nm s1))))
              | Some m \<Rightarrow>
                  (case loadTriggeredModule E nm ''-postLoad''
                          (snd (LOOKUP_SUBSCRIPT_modules module_name (snd (import_frozen E nm s1)))) of
                     Fatal k t \<Rightarrow> Fatal k t
                   | Return u s5 \<Rightarrow> Return (Some (Py_Ref m)) s5))
           else Return (Some Py_None) (snd (import_frozen E nm s1))))"
  using assms
  by (simp add: IMPORT_COMPILED_MODULE_def findEntry_def Let_def hasFrozenModule_iff
      split: outcome.splits option.splits)

lemma IMPORT_neither:
  assumes "loader_entries s \<noteq> NULL"
    and "findEntry_loop (tables E (loader_entries s)) nm = None"
    and "nm \<notin> set (PyImport_FrozenModules E)"
  shows "IMPORT_COMPILED_MODULE E module_name nm s = Return (Some Py_None) s"
  using assms
  by (simp add: IMPORT_COMPILED_MODULE_def findEntry_def Let_def hasFrozenModule_iff)

lemma found_rest_emits:
  assumes "name e = nm"
  shows "emits_only (\<lambda>ev. ev = Call_initfunc (nm @ ''-postLoad'') \<or> load_event nm ev) s1
     (case loadModule E module_name e s1 of
             Fatal k t \<Rightarrow> Fatal k t
           | Return loaded s2 \<Rightarrow>
               (case loaded of
                  None \<Rightarrow> Return None s2
                | Some m \<Rightarrow>
                    (case loadTriggeredModule E nm ''-postLoad'' s2 of
                       Fatal k t \<Rightarrow> Fatal k t
                     | Return u s5 \<Rightarrow> Return (Some (Py_Ref m)) s5)))"
proof (rule emits_only_seq)
  show "emits_only (\<lambda>ev. ev = Call_initfunc (nm @ ''-postLoad'') \<or> load_event nm ev) s1
          (loadModule E module_name e s1)"
    using assms by (auto intro: emits_only_mono [OF loadModule_emits])
next
  fix loaded s2
  show "emits_only (\<lambda>ev. ev = Call_initfunc (nm @ ''-postLoad'') \<or> load_event nm ev) s2
          (case loaded of
             None \<Rightarrow> Return None s2
           | Some m \<Rightarrow>
               (case loadTriggeredModule E nm ''-postLoad'' s2 of
                  Fatal k t \<Rightarrow> Fatal k t
                | Return u s5 \<Rightarrow> Return (Some (Py_Ref m)) s5))"
  proof (cases loaded)
    case None
    then show ?thesis by (simp add: emits_only_same)
  next
    case (Some m)
    have "emits_only (\<lambda>ev. ev = Call_initfunc (nm @ ''-postLoad'') \<or> load_event nm ev) s2
            (case loadTriggeredModule E nm ''-postLoad'' s2 of
               Fatal k t \<Rightarrow> Fatal k t
             | Return u s5 \<Rightarrow> Return (Some (Py_Ref m)) s5)"
      by (rule emits_only_seq)
        (auto intro: emits_only_mono [OF loadTriggeredModule_emits] simp: emits_only_same)
    with Some show ?thesis by simp
  qed
qed

lemma import_frozen_trace: "trace (snd (import_frozen E nm s)) = trace s @ [Import_frozen nm]"
  by (simp add: import_frozen_def Let_def)

lemma LOOKUP_SUBSCRIPT_modules_trace: "trace (snd (LOOKUP_SUBSCRIPT_modules mn s)) = trace s"
  by (simp add: LOOKUP_SUBSCRIPT_modules_def set_error_def split: option.splits)

lemma frozen_rest_emits:
  "emits_only (\<lambda>ev. ev = Call_initfunc (nm @ ''-postLoad'') \<or> ev = Import_frozen nm) s1
     (if fst (import_frozen E nm s1) = - 1 then Return None (snd (import_frozen E nm s1))
           else if fst (import_frozen E nm s1) = 1 then
             (case fst (LOOKUP_SUBSCRIPT_modules module_name (snd (import_frozen E nm s1))) of
                None \<Rightarrow>
                  Return (Some Py_None)
                    (snd (LOOKUP_SUBSCRIPT_modules module_name (snd (import_frozen E nm s1))))
              | Some m \<Rightarrow>
                  (case loadTriggeredModule E nm ''-postLoad''
                          (snd (LOOKUP_SUBSCRIPT_modules module_name (snd (import_frozen E nm s1)))) of
                     Fatal k t \<Rightarrow> Fatal k t
                   | Return u s5 \<Rightarrow> Return (Some (Py_Ref m)) s5))
           else Return (Some Py_None) (snd (import_frozen E nm s1)))"
proof -
  let ?P = "\<lambda>ev. ev = Call_initfunc (nm @ ''-postLoad'') \<or> ev = Import_frozen nm"
  let ?s2 = "snd (import_frozen E nm s1)"
  let ?s3 = "snd (LOOKUP_SUBSCRIPT_modules module_name ?s2)"
  have step: "emits_only ?P s1 out" if "emits_only ?P ?s2 out" for out :: "py_value option outcome"
    using that by (auto intro: emits_only_after [OF import_frozen_trace])
  have step3: "emits_only ?P ?s2 out" if "emits_only ?P ?s3 out" for out :: "py_value option outcome"
    using that by (auto simp: emits_only_def LOOKUP_SUBSCRIPT_modules_trace)
  have post: "emits_only ?P ?s3
            (case loadTriggeredModule E nm ''-postLoad'' ?s3 of
               Fatal k t \<Rightarrow> Fatal k t
             | Return u s5 \<Rightarrow> Return (Some (Py_Ref m)) s5)" for m
    by (rule emits_only_seq)
      (auto intro: emits_only_mono [OF loadTriggeredModule_emits] simp: emits_only_same)
  have a: "emits_only ?P s1 (Return r ?s2)" for r :: "py_value option"
    by (rule step) (simp add: emits_only_same)
  have b: "emits_only ?P s1 (Return r ?s3)" for r :: "py_value option"
    by (rule step, rule step3) (simp add: emits_only_same)
  have c: "emits_only ?P s1
            (case loadTriggeredModule E nm ''-postLoad'' ?s3 of
               Fatal k t \<Rightarrow> Fatal k t
             | Return u s5 \<Rightarrow> Return (Some (Py_Ref m)) s5)" for m
    by (rule step, rule step3, rule post)
  show ?thesis
    by (simp add: a b c split: option.splits)
qed

lemma load_event_not_trigger: "load_event nm ev \<Longrightarrow> x \<noteq> [] \<Longrightarrow> ev \<noteq> Call_initfunc (nm @ x)"
  by (cases ev) auto

lemma load_event_not_frozen: "load_event nm ev \<Longrightarrow> ev \<noteq> Import_frozen x"
  by (cases ev) auto

lemma IMPORT_after_preLoad:
  assumes "loader_entries s \<noteq> NULL"
    and "findEntry_loop (tables E (loader_entries s)) nm \<noteq> None
         \<or> nm \<in> set (PyImport_FrozenModules E)"
  shows "\<exists>g. IMPORT_COMPILED_MODULE E module_name nm s =
               (case loadTriggeredModule E nm ''-preLoad'' s of
                  Fatal k t \<Rightarrow> Fatal k t
                | Return u s1 \<Rightarrow> g s1)
            \<and> (\<forall>s1. emits_only (\<lambda>ev. ev \<noteq> Call_initfunc (nm @ ''-preLoad'')) s1 (g s1))"
proof (cases "findEntry_loop (tables E (loader_entries s)) nm")
  case (Some e)
  then have "name e = nm" by (simp add: findEntry_loop_Some)
  then have "emits_only (\<lambda>ev. ev \<noteq> Call_initfunc (nm @ ''-preLoad'')) s1
     (case loadModule E module_name e s1 of
             Fatal k t \<Rightarrow> Fatal k t
           | Return loaded s2 \<Rightarrow>
               (case loaded of
                  None \<Rightarrow> Return None s2
                | Some m \<Rightarrow>
                    (case loadTriggeredModule E nm ''-postLoad'' s2 of
                       Fatal k t \<Rightarrow> Fatal k t
                     | Return u s5 \<Rightarrow> Return (Some (Py_Ref m)) s5)))" for s1
    by (rule emits_only_mono [OF found_rest_emits]) (auto dest: load_event_not_trigger)
  with IMPORT_found [OF assms(1) Some] show ?thesis by blast
next
  case None
  with assms(2) have fz: "nm \<in> set (PyImport_FrozenModules E)" by simp
  have "emits_only (\<lambda>ev. ev \<noteq> Call_initfunc (nm @ ''-preLoad'')) s1
     (if fst (import_frozen E nm s1) = - 1 then Return None (snd (import_frozen E nm s1))
           else if fst (import_frozen E nm s1) = 1 then
             (case fst (LOOKUP_SUBSCRIPT_modules module_name (snd (import_frozen E nm s1))) of
                None \<Rightarrow>
                  Return (Some Py_None)
                    (snd (LOOKUP_SUBSCRIPT_modules module_name (snd (import_frozen E nm s1))))
              | Some m \<Rightarrow>
                  (case loadTriggeredModule E nm ''-postLoad''
                          (snd (LOOKUP_SUBSCRIPT_modules module_name (snd (import_frozen E nm s1)))) of
                     Fatal k t \<Rightarrow> Fatal k t
                   | Return u s5 \<Rightarrow> Return (Some (Py_Ref m)) s5))
           else Return (Some Py_None) (snd (import_frozen E nm s1)))" for s1
    by (rule emits_only_mono [OF frozen_rest_emits]) auto
  with IMPORT_frozen [OF assms(1) None fz] show ?thesis by blast
qed

lemma loadTriggeredModule_found:
  assumes "loader_entries s \<noteq> NULL" and "length (nm @ trigger_name) < 2048"
    and "findEntry_loop (tables E (loader_entries s)) (nm @ trigger_name) = Some t"
    and "python_initfunc t = Some f"
  shows "loadTriggeredModule E nm trigger_name s =
           (if error_occurred (f (py s)) \<noteq> None
            then Fatal Abort (trace s @ [Call_initfunc (nm @ trigger_name)])
            else Return () (s\<lparr>py := f (py s),
                              trace := trace s @ [Call_initfunc (nm @ trigger_name)]\<rparr>))"
  using assms findEntry_loop_Some [OF assms(3)]
  by (simp add: loadTriggeredModule_def findEntry_def Let_def)

lemma loadTriggeredModule_absent:
  assumes "loader_entries s \<noteq> NULL" and "length (nm @ trigger_name) < 2048"
    and "findEntry_loop (tables E (loader_entries s)) (nm @ trigger_name) = None"
  shows "loadTriggeredModule E nm trigger_name s = Return () s"
  using assms by (simp add: loadTriggeredModule_def findEntry_def)

text \<open>The loading operations do not read the frozen table or the frozen import.\<close>

lemma callIntoShlibModule_frozen_env:
  "callIntoShlibModule (E\<lparr>PyImport_FrozenModules := fz, PyImport_ImportFrozenModule := imp\<rparr>)
     = callIntoShlibModule E"
  by (simp add: fun_eq_iff callIntoShlibModule_def entry_function_name_def Let_def
      cong: if_cong option.case_cong)

lemma loadModule_frozen_env:
  "loadModule (E\<lparr>PyImport_FrozenModules := fz, PyImport_ImportFrozenModule := imp\<rparr>)
     = loadModule E"
  by (simp add: fun_eq_iff loadModule_def callIntoShlibModule_frozen_env SEP_def Let_def
      cong: if_cong option.case_cong outcome.case_cong)

lemma loadTriggeredModule_frozen_env:
  "loadTriggeredModule (E\<lparr>PyImport_FrozenModules := fz, PyImport_ImportFrozenModule := imp\<rparr>)
     = loadTriggeredModule E"
  by (simp add: fun_eq_iff loadTriggeredModule_def findEntry_def
      cong: if_cong option.case_cong outcome.case_cong)

subsection \<open>The bytecode branch, step by step\<close>

lemma length_copyModulenameAsPath [simp]: "length (copyModulenameAsPath sep nm) = length nm"
  by (simp add: copyModulenameAsPath_map)

lemma PyObject_SetAttr_Some:
  "obj < length (heap (py s)) \<Longrightarrow>
     PyObject_SetAttr obj k (Some v) s =
       (0, s\<lparr>py := (py s)\<lparr>heap := (heap (py s))[obj := (heap (py s) ! obj)(k \<mapsto> v)]\<rparr>,
             trace := trace s @ [Object_SetAttr obj k (Some v)]\<rparr>)"
  by (simp add: PyObject_SetAttr_def Let_def)

lemma heap_modules_update_commute:
  "p\<lparr>heap := h, modules := ms\<rparr> = p\<lparr>modules := ms, heap := h\<rparr>"
  by simp

lemma loadModule_bytecode:
  assumes "\<not> (NUITKA_STANDALONE E \<and> flags e AND NUITKA_SHLIB_FLAG E \<noteq> 0)"
    and "flags e AND NUITKA_BYTECODE_FLAG E \<noteq> 0"
    and "PyMarshal_ReadObjectFromString E (bytecode_str e) (bytecode_size e) = Some code"
    and "modules (py s) (name e) = None"
    and "length (name e) + (if flags e AND NUITKA_PACKAGE_FLAG E \<noteq> 0 then 12 else 3) < 1024"
  shows "loadModule E module_name e s =
     (let m = length (heap (py s));
          dir = copyModulenameAsPath (SEP E) (name e);
          pkg = (flags e AND NUITKA_PACKAGE_FLAG E \<noteq> 0);
          pth = MAKE_RELATIVE_PATH E (if pkg then dir @ [SEP E] @ ''__init__.py'' else dir @ ''.py'');
          attrs = (if pkg then [''__name__'' \<mapsto> Py_Str (name e),
                                ''__path__'' \<mapsto> Py_List [Py_Str (MAKE_RELATIVE_PATH E dir)]]
                   else [''__name__'' \<mapsto> Py_Str (name e)]);
          s2 = s\<lparr>py := (py s)\<lparr>modules := (modules (py s))(name e \<mapsto> m),
                                heap := heap (py s) @ [attrs]\<rparr>,
                 trace := trace s @ Dict_SetItem_modules (name e) m #
                   (if pkg then [Object_SetAttr m ''__path__''
                                   (Some (Py_List [Py_Str (MAKE_RELATIVE_PATH E dir)]))]
                    else [])\<rparr>;
          executed = PyImport_ExecCodeModuleEx E (name e) code pth (py s2);
          s3 = s2\<lparr>py := snd executed, trace := trace s2 @ [Exec_code (name e) code pth]\<rparr>
      in if 330 \<le> PYTHON_VERSION E then
           (case fst executed of
              None \<Rightarrow> Fatal Undefined (trace s3)
            | Some r \<Rightarrow>
                (let loader_set = PyObject_SetAttr r ''__loader__''
                                    (map_option Py_Ref (metapath_based_loader s3)) s3
                 in if fst loader_set \<noteq> 0 then Return None (snd loader_set)
                    else loadModule_return module_name (snd loader_set)))
         else loadModule_return module_name s3)"
proof -
  have c1: "(NUITKA_STANDALONE E \<and> flags e AND NUITKA_SHLIB_FLAG E \<noteq> 0) = False"
    using assms(1) by simp
  have c2: "(flags e AND NUITKA_BYTECODE_FLAG E \<noteq> 0) = True"
    using assms(2) by simp
  show ?thesis
  proof (cases "flags e AND NUITKA_PACKAGE_FLAG E \<noteq> 0")
    case True
    with assms(3-5) show ?thesis
      unfolding loadModule_def c1 c2 if_False if_True
      by (simp add: Let_def PyModule_New_def PyDict_SetItemString_modules_def
          PyObject_SetAttr_Some cong: if_cong option.case_cong)
  next
    case False
    with assms(3-5) show ?thesis
      unfolding loadModule_def c1 c2 if_False if_True
      by (simp add: Let_def PyModule_New_def PyDict_SetItemString_modules_def
          heap_modules_update_commute cong: if_cong option.case_cong)
  qed
qed

lemma trace_of_after_exec:
  "\<exists>rest. trace_of
      (if 330 \<le> PYTHON_VERSION E then
           (case x of
              None \<Rightarrow> Fatal Undefined (trace s3)
            | Some r \<Rightarrow>
                (let loader_set = PyObject_SetAttr r ''__loader__'' v s3
                 in if fst loader_set \<noteq> 0 then Return None (snd loader_set)
                    else loadModule_return module_name (snd loader_set)))
         else loadModule_return module_name s3) = trace s3 @ rest
     \<and> (\<forall>r v. Object_SetAttr r ''__path__'' v \<notin> set rest)"
  by (auto simp: Let_def loadModule_return_trace PyObject_SetAttr_trace split: option.splits)

lemma loadModule_bytecode_cases:
  assumes "\<not> (NUITKA_STANDALONE E \<and> flags e AND NUITKA_SHLIB_FLAG E \<noteq> 0)"
    and "flags e AND NUITKA_BYTECODE_FLAG E \<noteq> 0"
    and "PyMarshal_ReadObjectFromString E (bytecode_str e) (bytecode_size e) = Some code"
    and "modules (py s) (name e) = None"
    and "length (name e) + (if flags e AND NUITKA_PACKAGE_FLAG E \<noteq> 0 then 12 else 3) < 1024"
  obtains p2 s3 x where
    "p2 = (py s)\<lparr>modules := (modules (py s))(name e \<mapsto> length (heap (py s))),
                  heap := heap (py s) @
                    [if flags e AND NUITKA_PACKAGE_FLAG E \<noteq> 0
                     then [''__name__'' \<mapsto> Py_Str (name e),
                           ''__path__'' \<mapsto> Py_List [Py_Str (MAKE_RELATIVE_PATH E
                              (copyModulenameAsPath (SEP E) (name e)))]]
                     else [''__name__'' \<mapsto> Py_Str (name e)]]\<rparr>"
    and "PyImport_ExecCodeModuleEx E (name e) code
           (MAKE_RELATIVE_PATH E
              (if flags e AND NUITKA_PACKAGE_FLAG E \<noteq> 0
               then copyModulenameAsPath (SEP E) (name e) @ [SEP E] @ ''__init__.py''
               else copyModulenameAsPath (SEP E) (name e) @ ''.py'')) p2 = (x, py s3)"
    and "trace s3 = trace s @ Dict_SetItem_modules (name e) (length (heap (py s))) #
             (if flags e AND NUITKA_PACKAGE_FLAG E \<noteq> 0
              then [Object_SetAttr (length (heap (py s))) ''__path__''
                      (Some (Py_List [Py_Str (MAKE_RELATIVE_PATH E
                         (copyModulenameAsPath (SEP E) (name e)))]))]
              else [])
             @ [Exec_code (name e) code
                 (MAKE_RELATIVE_PATH E
                    (if flags e AND NUITKA_PACKAGE_FLAG E \<noteq> 0
                     then copyModulenameAsPath (SEP E) (name e) @ [SEP E] @ ''__init__.py''
                     else copyModulenameAsPath (SEP E) (name e) @ ''.py''))]"
    and "metapath_based_loader s3 = metapath_based_loader s"
    and "loadModule E module_name e s =
      (if 330 \<le> PYTHON_VERSION E then
           (case x of
              None \<Rightarrow> Fatal Undefined (trace s3)
            | Some r \<Rightarrow>
                (let loader_set = PyObject_SetAttr r ''__loader__''
                                    (map_option Py_Ref (metapath_based_loader s3)) s3
                 in if fst loader_set \<noteq> 0 then Return None (snd loader_set)
                    else loadModule_return module_name (snd loader_set)))
         else loadModule_return module_name s3)"
proof -
  let ?m = "length (heap (py s))"
  let ?dir = "copyModulenameAsPath (SEP E) (name e)"
  let ?pkg = "flags e AND NUITKA_PACKAGE_FLAG E \<noteq> 0"
  let ?pth = "MAKE_RELATIVE_PATH E (if ?pkg then ?dir @ [SEP E] @ ''__init__.py'' else ?dir @ ''.py'')"
  let ?attrs = "(if ?pkg then [''__name__'' \<mapsto> Py_Str (name e),
                                ''__path__'' \<mapsto> Py_List [Py_Str (MAKE_RELATIVE_PATH E ?dir)]]
                   else [''__name__'' \<mapsto> Py_Str (name e)])"
  let ?s2 = "s\<lparr>py := (py s)\<lparr>modules := (modules (py s))(name e \<mapsto> ?m),
                                heap := heap (py s) @ [?attrs]\<rparr>,
                 trace := trace s @ Dict_SetItem_modules (name e) ?m #
                   (if ?pkg then [Object_SetAttr ?m ''__path__''
                                   (Some (Py_List [Py_Str (MAKE_RELATIVE_PATH E ?dir)]))]
                    else [])\<rparr>"
  let ?executed = "PyImport_ExecCodeModuleEx E (name e) code ?pth (py ?s2)"
  let ?s3 = "?s2\<lparr>py := snd ?executed, trace := trace ?s2 @ [Exec_code (name e) code ?pth]\<rparr>"
  show thesis
  proof (rule that [of "py ?s2" "fst ?executed" ?s3])
    show "loadModule E module_name e s =
      (if 330 \<le> PYTHON_VERSION E then
           (case fst ?executed of
              None \<Rightarrow> Fatal Undefined (trace ?s3)
            | Some r \<Rightarrow>
                (let loader_set = PyObject_SetAttr r ''__loader__''
                                    (map_option Py_Ref (metapath_based_loader ?s3)) ?s3
                 in if fst loader_set \<noteq> 0 then Return None (snd loader_set)
                    else loadModule_return module_name (snd loader_set)))
         else loadModule_return module_name ?s3)"
      unfolding loadModule_bytecode [OF assms] Let_def ..
  qed simp_all
qed

lemma loadModule_bytecode_trace:
  assumes "\<not> (NUITKA_STANDALONE E \<and> flags e AND NUITKA_SHLIB_FLAG E \<noteq> 0)"
    and "flags e AND NUITKA_BYTECODE_FLAG E \<noteq> 0"
    and "PyMarshal_ReadObjectFromString E (bytecode_str e) (bytecode_size e) = Some code"
    and "modules (py s) (name e) = None"
    and "length (name e) + (if flags e AND NUITKA_PACKAGE_FLAG E \<noteq> 0 then 12 else 3) < 1024"
  shows "\<exists>rest. trace_of (loadModule E module_name e s) =
           trace s @ Dict_SetItem_modules (name e) (length (heap (py s))) #
             (if flags e AND NUITKA_PACKAGE_FLAG E \<noteq> 0
              then [Object_SetAttr (length (heap (py s))) ''__path__''
                      (Some (Py_List [Py_Str (MAKE_RELATIVE_PATH E
                         (copyModulenameAsPath (SEP E) (name e)))]))]
              else [])
             @ Exec_code (name e) code
                 (MAKE_RELATIVE_PATH E
                    (if flags e AND NUITKA_PACKAGE_FLAG E \<noteq> 0
                     then copyModulenameAsPath (SEP E) (name e) @ [SEP E] @ ''__init__.py''
                     else copyModulenameAsPath (SEP E) (name e) @ ''.py''))
               # rest
         \<and> (\<forall>r v. Object_SetAttr r ''__path__'' v \<notin> set rest)"
proof -
  from assms obtain p2 s3 x where
    tr: "trace s3 = trace s @ Dict_SetItem_modules (name e) (length (heap (py s))) #
             (if flags e AND NUITKA_PACKAGE_FLAG E \<noteq> 0
              then [Object_SetAttr (length (heap (py s))) ''__path__''
                      (Some (Py_List [Py_Str (MAKE_RELATIVE_PATH E
                         (copyModulenameAsPath (SEP E) (name e)))]))]
              else [])
             @ [Exec_code (name e) code
                 (MAKE_RELATIVE_PATH E
                    (if flags e AND NUITKA_PACKAGE_FLAG E \<noteq> 0
                     then copyModulenameAsPath (SEP E) (name e) @ [SEP E] @ ''__init__.py''
                     else copyModulenameAsPath (SEP E) (name e) @ ''.py''))]"
    and run: "loadModule E module_name e s =
      (if 330 \<le> PYTHON_VERSION E then
           (case x of
              None \<Rightarrow> Fatal Undefined (trace s3)
            | Some r \<Rightarrow>
                (let loader_set = PyObject_SetAttr r ''__loader__''
                                    (map_option Py_Ref (metapath_based_loader s3)) s3
                 in if fst loader_set \<noteq> 0 then Return None (snd loader_set)
                    else loadModule_return module_name (snd loader_set)))
         else loadModule_return module_name s3)"
    by (rule loadModule_bytecode_cases)
  from trace_of_after_exec [of E s3 "map_option Py_Ref (metapath_based_loader s3)" "module_name" x]
  obtain rest where "trace_of (loadModule E module_name e s) = trace s3 @ rest"
    and "\<forall>r v. Object_SetAttr r ''__path__'' v \<notin> set rest"
    unfolding run by blast
  then show ?thesis
    unfolding tr by simp
qed



lemma demo_module_run:
  "loadModule demo_env ''app.util'' (demo_table ! 1) demo_state =
     Return (Some 1)
       (demo_state
          \<lparr>py := (py demo_state)
             \<lparr>modules := [''app.util'' \<mapsto> 1],
              heap := heap (py demo_state)
                @ [[''__name__'' \<mapsto> Py_Str ''app.util'', ''__loader__'' \<mapsto> Py_Ref 0]]\<rparr>,
           trace := [Dict_SetItem_modules ''app.util'' 1,
                     Exec_code ''app.util'' (Code_object 0) ''/opt/dist/app/util.py'',
                     Object_SetAttr 1 ''__loader__'' (Some (Py_Ref 0))]\<rparr>)"
  by (simp add: demo_env_def demo_state_def demo_table_def demo_py_def loadModule_def Let_def
      PyModule_New_def PyDict_SetItemString_modules_def PyObject_SetAttr_def SEP_def
      loadModule_return_def LOOKUP_SUBSCRIPT_modules_def)

lemma loadModule_exec_env:
  assumes "\<not> (NUITKA_STANDALONE E \<and> flags e AND NUITKA_SHLIB_FLAG E \<noteq> 0)"
    and "flags e AND NUITKA_BYTECODE_FLAG E \<noteq> 0"
    and "PyMarshal_ReadObjectFromString E (bytecode_str e) (bytecode_size e) = Some code"
    and "modules (py s) (name e) = None"
    and "length (name e) + (if flags e AND NUITKA_PACKAGE_FLAG E \<noteq> 0 then 12 else 3) < 1024"
    and agree: "\<And>c f p. modules p (name e) = Some (length (heap (py s)))
                  \<Longrightarrow> length (heap (py s)) < length (heap p)
                  \<Longrightarrow> X (name e) c f p = PyImport_ExecCodeModuleEx E (name e) c f p"
  shows "loadModule (E\<lparr>PyImport_ExecCodeModuleEx := X\<rparr>) module_name e s
           = loadModule E module_name e s"
proof -
  let ?E = "E\<lparr>PyImport_ExecCodeModuleEx := X\<rparr>"
  have 1: "\<not> (NUITKA_STANDALONE ?E \<and> flags e AND NUITKA_SHLIB_FLAG ?E \<noteq> 0)"
    using assms(1) by simp
  have 2: "flags e AND NUITKA_BYTECODE_FLAG ?E \<noteq> 0"
    using assms(2) by simp
  have 3: "PyMarshal_ReadObjectFromString ?E (bytecode_str e) (bytecode_size e) = Some code"
    using assms(3) by simp
  have 5: "length (name e) + (if flags e AND NUITKA_PACKAGE_FLAG ?E \<noteq> 0 then 12 else 3) < 1024"
    using assms(5) by simp
  have p2: "X (name e) code pth
              ((py s)\<lparr>modules := (modules (py s))(name e \<mapsto> length (heap (py s))),
                       heap := heap (py s) @ [attrs]\<rparr>)
            = PyImport_ExecCodeModuleEx E (name e) code pth
                ((py s)\<lparr>modules := (modules (py s))(name e \<mapsto> length (heap (py s))),
                         heap := heap (py s) @ [attrs]\<rparr>)" for pth attrs
    by (rule agree) simp_all
  show ?thesis
    unfolding loadModule_bytecode [OF 1 2 3 assms(4) 5] loadModule_bytecode [OF assms(1-5)]
    by (simp add: Let_def SEP_def p2 cong: if_cong option.case_cong)
qed




text \<open>The entry point is run only in states that carry the package context.\<close>

lemma callIntoShlibModule_entrypoint_env:
  assumes "dlopen E filename = Some h"
    and "dlsym E h (entry_function_name E
           (case strrchr full_name (CHR ''.'') of None \<Rightarrow> full_name | Some d \<Rightarrow> tl d))
         = Some entrypoint"
    and agree: "\<And>p. Py_PackageContext p
                   = (if CHR ''.'' \<in> set full_name then Some full_name else None)
                 \<Longrightarrow> X p = entrypoint p"
  shows "callIntoShlibModule (E\<lparr>dlsym := \<lambda>h' symbol. Some X\<rparr>) full_name filename s
           = callIntoShlibModule E full_name filename s"
proof -
  have ctx: "(case strrchr full_name (CHR ''.'') of None \<Rightarrow> None | Some d \<Rightarrow> Some full_name)
               = (if CHR ''.'' \<in> set full_name then Some full_name else None)"
    by (simp add: strrchr_def)
  have x: "X (p\<lparr>Py_PackageContext :=
                  (if CHR ''.'' \<in> set full_name then Some full_name else None)\<rparr>)
           = entrypoint (p\<lparr>Py_PackageContext :=
                  (if CHR ''.'' \<in> set full_name then Some full_name else None)\<rparr>)" for p
    by (rule agree) simp
  have sym: "entry_function_name (E\<lparr>dlsym := d\<rparr>) = entry_function_name E" for d
    by (simp add: fun_eq_iff entry_function_name_def)
  show ?thesis
    using assms(1,2)
    by (simp add: callIntoShlibModule_def Let_def ctx x sym cong: if_cong option.case_cong)
qed

text \<open>The load of the extension module of the packaged program, computed.\<close>

lemma demo_shlib_run:
  "callIntoShlibModule demo_env ''pkg.sub.ext'' ''/opt/dist/pkg/sub/ext.so''
     (demo_state\<lparr>py := (py demo_state)\<lparr>Py_PackageContext := c\<rparr>\<rparr>) =
   Return (Some 1)
     (demo_state
        \<lparr>py := (py demo_state)
           \<lparr>Py_PackageContext := c,
            heap := heap (py demo_state)
              @ [[''__name__'' \<mapsto> Py_Str ''pkg.sub.ext'',
                  ''__file__'' \<mapsto> Py_Str ''/opt/dist/pkg/sub/ext.so'']],
            modules := [''pkg.sub.ext'' \<mapsto> 1]\<rparr>,
         trace := [Call_dlopen ''/opt/dist/pkg/sub/ext.so'', Call_dlsym ''PyInit_ext'',
                   Call_entrypoint ''PyInit_ext'' (Some ''pkg.sub.ext''),
                   Object_SetAttr 1 ''__file__'' (Some (Py_Str ''/opt/dist/pkg/sub/ext.so''))]\<rparr>)"
  by (simp add: demo_env_def demo_state_def strrchr_def entry_function_name_def
      callIntoShlibModule_def Let_def demo_entrypoint_def PyModule_AddStringConstant_def
      PyObject_SetAttr_def demo_py_def)

lemma demo_state_context:
  "demo_state\<lparr>py := (py demo_state)\<lparr>Py_PackageContext := None\<rparr>\<rparr> = demo_state"
  by (simp add: demo_state_def demo_py_def)

subsection \<open>Finding a module\<close>

text \<open>
  C1. Once the loader is registered, \<open>find_module\<close> returns the loader object exactly for the
  names that equal the name of a registry entry or stand in the frozen table of the host.
  For every other name it returns \<open>Py_None\<close>. It never returns NULL and it leaves the state,
  and so the error indicator, as it was.
\<close>

theorem find_module_claims_iff:
  assumes "loader_entries s \<noteq> NULL" and "metapath_based_loader s = Some l"
  shows "path_unfreezer_find_module E nm s =
           Return (Some (if nm \<in> name ` set (tables E (loader_entries s))
                            \<or> nm \<in> set (PyImport_FrozenModules E)
                         then Py_Ref l else Py_None)) s"
  using assms
  by (simp add: path_unfreezer_find_module_def return_loader_def hasFrozenModule_iff
      find_module_loop_iff)

theorem find_module_claims_iff_witness:
  "path_unfreezer_find_module demo_env ''app.util'' demo_state = Return (Some (Py_Ref 0)) demo_state
   \<and> path_unfreezer_find_module demo_env ''__hello__'' demo_state = Return (Some (Py_Ref 0)) demo_state
   \<and> path_unfreezer_find_module demo_env ''App.util'' demo_state = Return (Some Py_None) demo_state"
  using find_module_claims_iff [of demo_state 0 demo_env "''app.util''"]
    find_module_claims_iff [of demo_state 0 demo_env "''__hello__''"]
    find_module_claims_iff [of demo_state 0 demo_env "''App.util''"]
  by (simp add: demo_state_def demo_env_def demo_table_def NULL_def)

text \<open>
  C9. For a name that is no registry entry, \<open>find_spec\<close> returns \<open>Py_None\<close> and changes
  nothing, whatever the frozen table of the host holds; when the name is frozen,
  \<open>find_module\<close> on the same state returns the loader.
\<close>

theorem find_spec_leaves_frozen:
  assumes "loader_entries s \<noteq> NULL"
    and "nm \<notin> name ` set (tables E (loader_entries s))"
  shows "path_unfreezer_find_spec E nm s = Return (Some Py_None) s
         \<and> (nm \<in> set (PyImport_FrozenModules E) \<and> metapath_based_loader s = Some l \<longrightarrow>
              path_unfreezer_find_module E nm s = Return (Some (Py_Ref l)) s)"
proof -
  from assms(2) have none: "findEntry_loop (tables E (loader_entries s)) nm = None"
    by (simp add: findEntry_loop_None)
  with assms(1) have "path_unfreezer_find_spec E nm s = Return (Some Py_None) s"
    by (simp add: path_unfreezer_find_spec_def findEntry_def)
  moreover from assms
  have "nm \<in> set (PyImport_FrozenModules E) \<and> metapath_based_loader s = Some l \<longrightarrow>
          path_unfreezer_find_module E nm s = Return (Some (Py_Ref l)) s"
    by (simp add: path_unfreezer_find_module_def return_loader_def hasFrozenModule_iff
        find_module_loop_iff)
  ultimately show ?thesis by simp
qed

theorem find_spec_leaves_frozen_witness:
  "path_unfreezer_find_spec demo_env ''__hello__'' demo_state = Return (Some Py_None) demo_state
   \<and> path_unfreezer_find_module demo_env ''__hello__'' demo_state = Return (Some (Py_Ref 0)) demo_state"
  using find_spec_leaves_frozen [of demo_state "''__hello__''" demo_env 0]
  by (simp add: demo_state_def demo_env_def demo_table_def NULL_def)

subsection \<open>Registration\<close>

text \<open>
  C3. For a table \<open>t\<close> (a pointer that is not NULL): the first call installs it, with the
  loader class made and put on \<open>sys.meta_path\<close>; once \<open>t\<close> is installed, a call with \<open>t\<close>
  returns with the state unchanged, and a call with any other pointer fails the assertion,
  which ends the process.
\<close>

theorem register_once:
  assumes "t \<noteq> NULL"
  shows "(loader_entries s = NULL \<longrightarrow>
            (\<exists>s1. registerMetaPathBasedUnfreezer E t s = Return () s1 \<and> loader_entries s1 = t
                  \<and> metapath_based_loader s1 = Some (length (heap (py s)))
                  \<and> length (heap (py s)) \<in> set (meta_path (py s1))))
         \<and> (loader_entries s = t \<longrightarrow> registerMetaPathBasedUnfreezer E t s = Return () s)
         \<and> (loader_entries s = t \<longrightarrow>
              (\<forall>t'. t' \<noteq> t \<longrightarrow>
                 registerMetaPathBasedUnfreezer E t' s = Fatal AssertionFailure (trace s)))"
  using assms
  by (simp add: registerMetaPathBasedUnfreezer_def Let_def PyList_Insert_def)

theorem register_once_witness:
  "registerMetaPathBasedUnfreezer demo_env 1 demo_start = Return () demo_state
   \<and> registerMetaPathBasedUnfreezer demo_env 1 demo_state = Return () demo_state
   \<and> registerMetaPathBasedUnfreezer demo_env 2 demo_state = Fatal AssertionFailure []"
  using register_once [of 1 demo_start demo_env] register_once [of 1 demo_state demo_env]
  by (simp add: registerMetaPathBasedUnfreezer_def Let_def demo_start_def demo_state_def NULL_def
      demo_py_def PyList_Insert_def demo_env_def)

subsection \<open>Shared libraries\<close>

text \<open>
  C7. In \<open>callIntoShlibModule\<close>, when the library cannot be opened the function returns NULL
  and the error indicator of the interpreter holds an \<open>ImportError\<close> with the message of the
  platform; nothing else of the state changes and the process goes on. When the library
  opens and the entry symbol is not found, the assertion fails, which ends the process, and
  no error is handed to the caller.
\<close>

theorem shlib_open_failure_recoverable:
  "(dlopen E filename = None \<longrightarrow>
      callIntoShlibModule E full_name filename s =
        Return None
          (s\<lparr>py := (py s)\<lparr>error_occurred := Some
                  (ImportError,
                   if WIN32 E then ''LoadLibraryEx '' @ [CHR 0x27] @ filename @ [CHR 0x27] @ '' failed''
                   else (case dlerror E filename of None \<Rightarrow> ''unknown dlopen() error'' | Some msg \<Rightarrow> msg))\<rparr>,
             trace := trace s @ [Call_dlopen filename]\<rparr>))
   \<and> (\<forall>h. dlopen E filename = Some h
          \<and> dlsym E h (entry_function_name E
               (case strrchr full_name (CHR ''.'') of None \<Rightarrow> full_name | Some d \<Rightarrow> tl d)) = None \<longrightarrow>
        callIntoShlibModule E full_name filename s =
          Fatal AssertionFailure
            (trace s @ [Call_dlopen filename,
               Call_dlsym (entry_function_name E
                 (case strrchr full_name (CHR ''.'') of None \<Rightarrow> full_name | Some d \<Rightarrow> tl d))]))"
  by (simp add: callIntoShlibModule_def Let_def set_error_def)

theorem shlib_open_failure_recoverable_witness:
  "callIntoShlibModule demo_env ''pkg.sub.gone'' ''/opt/dist/pkg/sub/gone.so'' demo_state =
     Return None
       (demo_state\<lparr>py := (py demo_state)
                      \<lparr>error_occurred := Some (ImportError, ''cannot open shared object file'')\<rparr>,
                    trace := [Call_dlopen ''/opt/dist/pkg/sub/gone.so'']\<rparr>)
   \<and> callIntoShlibModule demo_env ''pkg.sub.other'' ''/opt/dist/pkg/sub/ext.so'' demo_state =
       Fatal AssertionFailure [Call_dlopen ''/opt/dist/pkg/sub/ext.so'', Call_dlsym ''PyInit_other'']"
  using shlib_open_failure_recoverable
    [of demo_env "''/opt/dist/pkg/sub/gone.so''" "''pkg.sub.gone''" demo_state]
    shlib_open_failure_recoverable
    [of demo_env "''/opt/dist/pkg/sub/ext.so''" "''pkg.sub.other''" demo_state]
  by (simp add: demo_env_def demo_state_def strrchr_def entry_function_name_def)

text \<open>
  C5. In a standalone build, for an entry with the shared library flag whose dotted name
  ends in the component \<open>leaf\<close>, \<open>loadModule\<close> opens the file whose path is the directory of
  the binary, the separator \<open>SEP\<close>, the name with every dot replaced by \<open>SEP\<close>, and \<open>.pyd\<close> on
  \<open>_WIN32\<close> or \<open>.so\<close> otherwise; when the file opens, the symbol it looks up is \<open>init\<close> before
  Python 3 and \<open>PyInit_\<close> from Python 3 on, followed by \<open>leaf\<close>. The path is one that fits
  \<open>filename[MAXPATHLEN + 1]\<close> and the symbol one that fits \<open>entry_function_name[1024]\<close>.
\<close>

theorem shlib_path_and_symbol:
  assumes "NUITKA_STANDALONE E" and "flags e AND NUITKA_SHLIB_FLAG E \<noteq> 0"
    and "CHR ''.'' \<notin> set leaf"
    and "name e = leaf \<or> name e = pkg @ CHR ''.'' # leaf"
    and "filename = getBinaryDirectoryHostEncoded E @ [SEP E]
           @ map (\<lambda>c. if c = CHR ''.'' then SEP E else c) (name e)
           @ (if WIN32 E then ''.pyd'' else ''.so'')"
    and "symbol = (if PYTHON_VERSION E < 300 then ''init'' else ''PyInit_'') @ leaf"
    and "length filename \<le> MAXPATHLEN E" and "length symbol < 1024"
  shows "\<exists>rest. trace_of (loadModule E module_name e s) = trace s @ Call_dlopen filename # rest
           \<and> (dlopen E filename \<noteq> None \<longrightarrow> (\<exists>rest'. rest = Call_dlsym symbol # rest'))"
proof -
  have leaf: "(case strrchr (name e) (CHR ''.'') of None \<Rightarrow> name e | Some d \<Rightarrow> tl d) = leaf"
    using assms(3,4) by (rule leaf_of_name)
  have sym: "entry_function_name E leaf = symbol"
    using assms(6,8) by (simp add: entry_function_name_def)
  have fname: "getBinaryDirectoryHostEncoded E @ [SEP E] @ copyModulenameAsPath (SEP E) (name e)
                @ (if WIN32 E then ''.pyd'' else ''.so'') = filename"
    unfolding assms(5) copyModulenameAsPath_map ..
  have "trace_of (loadModule E module_name e s)
          = trace_of (callIntoShlibModule E (name e) filename s)"
    using loadModule_shlib_trace [OF assms(1,2)] assms(7)
    unfolding fname by simp
  with callIntoShlibModule_trace [of E "name e" filename s] leaf sym
  show ?thesis by auto
qed

theorem shlib_path_and_symbol_witness:
  "\<exists>rest. trace_of (loadModule demo_env ''pkg.sub.ext'' (demo_table ! 5) demo_state)
      = Call_dlopen ''/opt/dist/pkg/sub/ext.so'' # Call_dlsym ''PyInit_ext'' # rest"
proof -
  have e5: "demo_table ! 5 =
      \<lparr>name = ''pkg.sub.ext'', python_initfunc = None, bytecode_str = [], bytecode_size = 0,
       flags = 1\<rparr>"
    by (simp add: demo_table_def)
  have h1: "NUITKA_STANDALONE demo_env"
    by (simp add: demo_env_def)
  have h2: "flags (demo_table ! 5) AND NUITKA_SHLIB_FLAG demo_env \<noteq> 0"
    by (simp add: e5 demo_env_def)
  have h3: "CHR ''.'' \<notin> set ''ext''"
    by simp
  have h4: "name (demo_table ! 5) = ''ext''
            \<or> name (demo_table ! 5) = ''pkg.sub'' @ CHR ''.'' # ''ext''"
    by (simp add: e5)
  have h5: "''/opt/dist/pkg/sub/ext.so'' = getBinaryDirectoryHostEncoded demo_env @ [SEP demo_env]
           @ map (\<lambda>c. if c = CHR ''.'' then SEP demo_env else c) (name (demo_table ! 5))
           @ (if WIN32 demo_env then ''.pyd'' else ''.so'')"
    by (simp add: e5 demo_env_def SEP_def)
  have h6: "''PyInit_ext'' = (if PYTHON_VERSION demo_env < 300 then ''init'' else ''PyInit_'') @ ''ext''"
    by (simp add: demo_env_def)
  have h7: "length ''/opt/dist/pkg/sub/ext.so'' \<le> MAXPATHLEN demo_env"
    by (simp add: demo_env_def)
  have h8: "length ''PyInit_ext'' < 1024"
    by simp
  have h9: "dlopen demo_env ''/opt/dist/pkg/sub/ext.so'' \<noteq> None"
    by (simp add: demo_env_def)
  have h10: "trace demo_state = []"
    by (simp add: demo_state_def)
  from shlib_path_and_symbol [OF h1 h2 h3 h4 h5 h6 h7 h8, of "''pkg.sub.ext''" demo_state] h9 h10
  show ?thesis by auto
qed

text \<open>
  C8, as the code has it. When the library opens and the symbol resolves, the entry point is
  called with \<open>_Py_PackageContext\<close> set to the full dotted name of the module when that
  name has a dot, and to NULL for a top level module: the entry point is run only in an
  interpreter state that holds this context, so an entry point that behaves differently
  under every other context gives the same outcome. The value saved before the call is
  written back right after it, whatever the entry point returned and whatever it did to the
  variable, so every call of \<open>callIntoShlibModule\<close> that returns, with a module or with an
  error, leaves \<open>_Py_PackageContext\<close> as it found it.
\<close>

theorem package_context_restored:
  "(\<forall>h entrypoint symbol.
       symbol = entry_function_name E
         (case strrchr full_name (CHR ''.'') of None \<Rightarrow> full_name | Some d \<Rightarrow> tl d)
       \<and> dlopen E filename = Some h \<and> dlsym E h symbol = Some entrypoint \<longrightarrow>
       (\<exists>rest. trace_of (callIntoShlibModule E full_name filename s) =
          trace s @ [Call_dlopen filename, Call_dlsym symbol,
            Call_entrypoint symbol (if CHR ''.'' \<in> set full_name then Some full_name else None)]
          @ rest)
       \<and> (\<forall>X. (\<forall>p. Py_PackageContext p
                       = (if CHR ''.'' \<in> set full_name then Some full_name else None) \<longrightarrow>
                     X p = entrypoint p) \<longrightarrow>
              callIntoShlibModule (E\<lparr>dlsym := \<lambda>h' symbol'. Some X\<rparr>) full_name filename s
                = callIntoShlibModule E full_name filename s))
   \<and> (\<forall>r s'. callIntoShlibModule E full_name filename s = Return r s' \<longrightarrow>
          Py_PackageContext (py s') = Py_PackageContext (py s))"
proof -
  have ctx: "(case strrchr full_name (CHR ''.'') of None \<Rightarrow> None | Some d \<Rightarrow> Some full_name)
               = (if CHR ''.'' \<in> set full_name then Some full_name else None)"
    by (simp add: strrchr_def)
  have "\<exists>rest. trace_of (callIntoShlibModule E full_name filename s) =
          trace s @ [Call_dlopen filename, Call_dlsym symbol,
            Call_entrypoint symbol (if CHR ''.'' \<in> set full_name then Some full_name else None)]
          @ rest"
    if "symbol = entry_function_name E
         (case strrchr full_name (CHR ''.'') of None \<Rightarrow> full_name | Some d \<Rightarrow> tl d)"
      and "dlopen E filename = Some h" and "dlsym E h symbol = Some entrypoint"
    for h entrypoint symbol
    using callIntoShlibModule_trace [of E full_name filename s] that
    unfolding ctx by fastforce
  moreover
  have "callIntoShlibModule (E\<lparr>dlsym := \<lambda>h' symbol'. Some X\<rparr>) full_name filename s
          = callIntoShlibModule E full_name filename s"
    if "symbol = entry_function_name E
         (case strrchr full_name (CHR ''.'') of None \<Rightarrow> full_name | Some d \<Rightarrow> tl d)"
      and "dlopen E filename = Some h" and "dlsym E h symbol = Some entrypoint"
      and "\<forall>p. Py_PackageContext p
                       = (if CHR ''.'' \<in> set full_name then Some full_name else None) \<longrightarrow>
                     X p = entrypoint p"
    for h entrypoint symbol X
    using that by (intro callIntoShlibModule_entrypoint_env [of E filename h full_name entrypoint X]) auto
  moreover have "Py_PackageContext (py s') = Py_PackageContext (py s)"
    if "callIntoShlibModule E full_name filename s = Return r s'" for r s'
    using that by (rule callIntoShlibModule_context)
  ultimately show ?thesis by blast
qed

theorem package_context_restored_witness:
  "(\<exists>rest. trace_of (callIntoShlibModule demo_env ''pkg.sub.ext'' ''/opt/dist/pkg/sub/ext.so''
              (demo_state\<lparr>py := (py demo_state)\<lparr>Py_PackageContext := Some ''outer''\<rparr>\<rparr>)) =
        [Call_dlopen ''/opt/dist/pkg/sub/ext.so'', Call_dlsym ''PyInit_ext'',
         Call_entrypoint ''PyInit_ext'' (Some ''pkg.sub.ext'')] @ rest)
   \<and> callIntoShlibModule
         (demo_env\<lparr>dlsym := \<lambda>h' symbol'. Some
            (\<lambda>p. if Py_PackageContext p = Some ''pkg.sub.ext'' then demo_entrypoint p
                  else (None, p))\<rparr>)
         ''pkg.sub.ext'' ''/opt/dist/pkg/sub/ext.so''
         (demo_state\<lparr>py := (py demo_state)\<lparr>Py_PackageContext := Some ''outer''\<rparr>\<rparr>)
       = callIntoShlibModule demo_env ''pkg.sub.ext'' ''/opt/dist/pkg/sub/ext.so''
           (demo_state\<lparr>py := (py demo_state)\<lparr>Py_PackageContext := Some ''outer''\<rparr>\<rparr>)
   \<and> (\<exists>s'. callIntoShlibModule demo_env ''pkg.sub.ext'' ''/opt/dist/pkg/sub/ext.so''
              (demo_state\<lparr>py := (py demo_state)\<lparr>Py_PackageContext := Some ''outer''\<rparr>\<rparr>)
            = Return (Some 1) s' \<and> Py_PackageContext (py s') = Some ''outer''
              \<and> (heap (py s') ! 1) ''__name__'' = Some (Py_Str ''pkg.sub.ext''))"
proof -
  let ?s = "demo_state\<lparr>py := (py demo_state)\<lparr>Py_PackageContext := Some ''outer''\<rparr>\<rparr>"
  let ?X = "\<lambda>p. if Py_PackageContext p = Some ''pkg.sub.ext'' then demo_entrypoint p
                 else (None, p)"
  have symb: "''PyInit_ext'' = entry_function_name demo_env
         (case strrchr ''pkg.sub.ext'' (CHR ''.'') of None \<Rightarrow> ''pkg.sub.ext'' | Some d \<Rightarrow> tl d)"
    by (simp add: demo_env_def strrchr_def entry_function_name_def)
  have opn: "dlopen demo_env ''/opt/dist/pkg/sub/ext.so'' = Some 7"
    by (simp add: demo_env_def)
  have ds: "dlsym demo_env 7 ''PyInit_ext'' = Some demo_entrypoint"
    by (simp add: demo_env_def)
  have agree: "\<forall>p. Py_PackageContext p
                  = (if CHR ''.'' \<in> set ''pkg.sub.ext'' then Some ''pkg.sub.ext'' else None) \<longrightarrow>
                ?X p = demo_entrypoint p"
    by simp
  have dot: "(if CHR ''.'' \<in> set ''pkg.sub.ext'' then Some ''pkg.sub.ext'' else None)
               = Some ''pkg.sub.ext''"
    by simp
  have tr: "trace ?s = []"
    by (simp add: demo_state_def)
  from package_context_restored [of demo_env "''pkg.sub.ext''" "''/opt/dist/pkg/sub/ext.so''" ?s] symb opn ds
  have 1: "(\<exists>rest. trace_of (callIntoShlibModule demo_env ''pkg.sub.ext''
                ''/opt/dist/pkg/sub/ext.so'' ?s) =
          trace ?s @ [Call_dlopen ''/opt/dist/pkg/sub/ext.so'', Call_dlsym ''PyInit_ext'',
            Call_entrypoint ''PyInit_ext''
              (if CHR ''.'' \<in> set ''pkg.sub.ext'' then Some ''pkg.sub.ext'' else None)]
          @ rest)"
    and 2: "\<forall>X. (\<forall>p. Py_PackageContext p
                       = (if CHR ''.'' \<in> set ''pkg.sub.ext'' then Some ''pkg.sub.ext'' else None) \<longrightarrow>
                     X p = demo_entrypoint p) \<longrightarrow>
              callIntoShlibModule (demo_env\<lparr>dlsym := \<lambda>h' symbol'. Some X\<rparr>)
                ''pkg.sub.ext'' ''/opt/dist/pkg/sub/ext.so'' ?s
                = callIntoShlibModule demo_env ''pkg.sub.ext'' ''/opt/dist/pkg/sub/ext.so'' ?s"
    by blast+
  from 2 [rule_format, of ?X] agree [rule_format]
  have 3: "callIntoShlibModule (demo_env\<lparr>dlsym := \<lambda>h' symbol'. Some ?X\<rparr>)
                ''pkg.sub.ext'' ''/opt/dist/pkg/sub/ext.so'' ?s
                = callIntoShlibModule demo_env ''pkg.sub.ext'' ''/opt/dist/pkg/sub/ext.so'' ?s"
    by blast
  from demo_shlib_run [of "Some ''outer''"]
  have 4: "\<exists>s'. callIntoShlibModule demo_env ''pkg.sub.ext'' ''/opt/dist/pkg/sub/ext.so'' ?s
            = Return (Some 1) s' \<and> Py_PackageContext (py s') = Some ''outer''
              \<and> (heap (py s') ! 1) ''__name__'' = Some (Py_Str ''pkg.sub.ext'')"
    by (simp add: demo_state_def demo_py_def)
  from 1 3 4 show ?thesis
    unfolding tr dot by simp
qed

text \<open>
  C8 as stated fails: for \<open>pkg.sub.ext\<close> the entry point runs with the context
  \<open>pkg.sub.ext\<close>, the full name, not with the package part \<open>pkg.sub\<close>. The entry point of
  the packaged program names the module it makes by the context it reads, and the module
  comes back named \<open>pkg.sub.ext\<close>.
\<close>

theorem package_context_is_full_name_counterexample:
  "Call_entrypoint ''PyInit_ext'' (Some ''pkg.sub.ext'')
     \<in> set (trace_of (callIntoShlibModule demo_env ''pkg.sub.ext'' ''/opt/dist/pkg/sub/ext.so''
                demo_state))
   \<and> Call_entrypoint ''PyInit_ext'' (Some ''pkg.sub'')
     \<notin> set (trace_of (callIntoShlibModule demo_env ''pkg.sub.ext'' ''/opt/dist/pkg/sub/ext.so''
                demo_state))
   \<and> returned_attr ''__name__''
         (callIntoShlibModule demo_env ''pkg.sub.ext'' ''/opt/dist/pkg/sub/ext.so'' demo_state)
       = Some (Py_Str ''pkg.sub.ext'')"
  using demo_shlib_run [of None]
  by (simp add: demo_state_context returned_attr_def demo_state_def demo_py_def)

subsection \<open>Loading\<close>

text \<open>
  C4. Let \<open>nm\<close> be a name that has a registry entry or is frozen, short enough for the
  trigger's name to fit the buffer of \<open>loadTriggeredModule\<close>. If the registry has an entry
  named \<open>nm-preLoad\<close> that carries an init function \<open>f\<close>, the trigger dispatch applies \<open>f\<close> to
  the interpreter once (and aborts when it leaves an error set), and that call is the first
  thing \<open>IMPORT_COMPILED_MODULE\<close> does: everything it does for \<open>nm\<close> itself comes after it,
  and the call does not occur again. If there is no such entry, the dispatch returns with
  the state unchanged, so without an error, and the load calls no such trigger.
\<close>

theorem preLoad_trigger_first_and_once:
  assumes "loader_entries s \<noteq> NULL"
    and "findEntry_loop (tables E (loader_entries s)) nm \<noteq> None
         \<or> nm \<in> set (PyImport_FrozenModules E)"
    and "length (nm @ ''-preLoad'') < 2048"
  shows "(\<forall>t f. findEntry_loop (tables E (loader_entries s)) (nm @ ''-preLoad'') = Some t
              \<and> python_initfunc t = Some f \<longrightarrow>
            loadTriggeredModule E nm ''-preLoad'' s =
              (if error_occurred (f (py s)) \<noteq> None
               then Fatal Abort (trace s @ [Call_initfunc (nm @ ''-preLoad'')])
               else Return () (s\<lparr>py := f (py s),
                                 trace := trace s @ [Call_initfunc (nm @ ''-preLoad'')]\<rparr>))
            \<and> (\<exists>rest. trace_of (IMPORT_COMPILED_MODULE E module_name nm s) =
                         trace s @ Call_initfunc (nm @ ''-preLoad'') # rest
                       \<and> Call_initfunc (nm @ ''-preLoad'') \<notin> set rest))
         \<and> (findEntry_loop (tables E (loader_entries s)) (nm @ ''-preLoad'') = None \<longrightarrow>
              loadTriggeredModule E nm ''-preLoad'' s = Return () s
              \<and> (\<exists>evs. trace_of (IMPORT_COMPILED_MODULE E module_name nm s) = trace s @ evs
                        \<and> Call_initfunc (nm @ ''-preLoad'') \<notin> set evs))"
proof -
  let ?ev = "Call_initfunc (nm @ ''-preLoad'')"
  from IMPORT_after_preLoad [OF assms(1,2)]
  obtain g where imp: "IMPORT_COMPILED_MODULE E module_name nm s =
               (case loadTriggeredModule E nm ''-preLoad'' s of
                  Fatal k t \<Rightarrow> Fatal k t
                | Return u s1 \<Rightarrow> g s1)"
    and g: "\<And>s1. emits_only (\<lambda>ev. ev \<noteq> ?ev) s1 (g s1)"
    by blast
  have found: "\<exists>rest. trace_of (IMPORT_COMPILED_MODULE E module_name nm s) = trace s @ ?ev # rest
                 \<and> ?ev \<notin> set rest"
    if "findEntry_loop (tables E (loader_entries s)) (nm @ ''-preLoad'') = Some t"
      and "python_initfunc t = Some f" for t f
  proof (cases "error_occurred (f (py s)) \<noteq> None")
    case True
    with imp loadTriggeredModule_found [OF assms(1,3) that] show ?thesis by simp
  next
    case False
    let ?s1 = "s\<lparr>py := f (py s), trace := trace s @ [?ev]\<rparr>"
    from False imp loadTriggeredModule_found [OF assms(1,3) that]
    have "IMPORT_COMPILED_MODULE E module_name nm s = g ?s1" by simp
    moreover from g [of ?s1] obtain evs
      where "trace_of (g ?s1) = trace ?s1 @ evs" and "list_all (\<lambda>ev. ev \<noteq> ?ev) evs"
      by (auto simp: emits_only_def)
    ultimately show ?thesis by (auto simp: list_all_iff)
  qed
  have absent: "\<exists>evs. trace_of (IMPORT_COMPILED_MODULE E module_name nm s) = trace s @ evs
                        \<and> ?ev \<notin> set evs"
    if "findEntry_loop (tables E (loader_entries s)) (nm @ ''-preLoad'') = None"
  proof -
    from imp loadTriggeredModule_absent [OF assms(1,3) that]
    have "IMPORT_COMPILED_MODULE E module_name nm s = g s" by simp
    with g [of s] show ?thesis by (auto simp: emits_only_def list_all_iff)
  qed
  from found absent loadTriggeredModule_found [OF assms(1,3)]
    loadTriggeredModule_absent [OF assms(1,3)]
  show ?thesis by blast
qed

theorem preLoad_trigger_first_and_once_witness:
  "(\<exists>rest. trace_of (IMPORT_COMPILED_MODULE demo_env ''native'' ''native'' demo_state) =
             Call_initfunc ''native-preLoad'' # rest
           \<and> Call_initfunc ''native-preLoad'' \<notin> set rest)
   \<and> loadTriggeredModule demo_env ''app'' ''-preLoad'' demo_state = Return () demo_state
   \<and> (\<exists>evs. trace_of (IMPORT_COMPILED_MODULE demo_env ''app'' ''app'' demo_state) = evs
           \<and> Call_initfunc ''app-preLoad'' \<notin> set evs)"
proof -
  have r: "loader_entries demo_state \<noteq> NULL"
    by (simp add: demo_state_def NULL_def)
  have tbl: "tables demo_env (loader_entries demo_state) = demo_table"
    by (simp add: demo_env_def demo_state_def)
  have tr: "trace demo_state = []"
    by (simp add: demo_state_def)
  have k1: "findEntry_loop (tables demo_env (loader_entries demo_state)) ''native'' \<noteq> None
            \<or> ''native'' \<in> set (PyImport_FrozenModules demo_env)"
    by (simp add: tbl demo_table_def)
  have l1: "length (''native'' @ ''-preLoad'') < 2048"
    by simp
  have t1: "findEntry_loop (tables demo_env (loader_entries demo_state)) (''native'' @ ''-preLoad'')
              = Some (demo_table ! 2)"
    by (simp add: tbl demo_table_def)
  have f1: "python_initfunc (demo_table ! 2) = Some (demo_initfunc ''native-preLoad'')"
    by (simp add: demo_table_def)
  have k2: "findEntry_loop (tables demo_env (loader_entries demo_state)) ''app'' \<noteq> None
            \<or> ''app'' \<in> set (PyImport_FrozenModules demo_env)"
    by (simp add: tbl demo_table_def)
  have l2: "length (''app'' @ ''-preLoad'') < 2048"
    by simp
  have t2: "findEntry_loop (tables demo_env (loader_entries demo_state)) (''app'' @ ''-preLoad'')
              = None"
    by (simp add: tbl demo_table_def)
  from preLoad_trigger_first_and_once [OF r k1 l1, of "''native''"] t1 f1
  have "\<exists>rest. trace_of (IMPORT_COMPILED_MODULE demo_env ''native'' ''native'' demo_state) =
             trace demo_state @ Call_initfunc (''native'' @ ''-preLoad'') # rest
           \<and> Call_initfunc (''native'' @ ''-preLoad'') \<notin> set rest"
    by blast
  moreover from preLoad_trigger_first_and_once [OF r k2 l2, of "''app''"] t2
  have "loadTriggeredModule demo_env ''app'' ''-preLoad'' demo_state = Return () demo_state
        \<and> (\<exists>evs. trace_of (IMPORT_COMPILED_MODULE demo_env ''app'' ''app'' demo_state) =
                   trace demo_state @ evs
                 \<and> Call_initfunc (''app'' @ ''-preLoad'') \<notin> set evs)"
    by blast
  ultimately show ?thesis
    by (simp add: tr)
qed

text \<open>
  C10. When the registry has an entry for the name, \<open>IMPORT_COMPILED_MODULE\<close> never calls
  \<open>PyImport_ImportFrozenModule\<close>: all it does is call the two triggers of the name and load
  the entry. Its outcome is the same whatever the frozen table holds and whatever the frozen
  import of the host would do.
\<close>

theorem registry_entry_precedes_frozen:
  assumes "loader_entries s \<noteq> NULL"
    and "findEntry_loop (tables E (loader_entries s)) nm = Some e"
  shows "(\<exists>evs. trace_of (IMPORT_COMPILED_MODULE E module_name nm s) = trace s @ evs
            \<and> (\<forall>x. Import_frozen x \<notin> set evs)
            \<and> list_all (\<lambda>ev. ev = Call_initfunc (nm @ ''-preLoad'')
                             \<or> ev = Call_initfunc (nm @ ''-postLoad'') \<or> load_event nm ev) evs)
         \<and> IMPORT_COMPILED_MODULE
              (E\<lparr>PyImport_FrozenModules := fz, PyImport_ImportFrozenModule := imp\<rparr>)
              module_name nm s
            = IMPORT_COMPILED_MODULE E module_name nm s"
proof -
  let ?P = "\<lambda>ev. ev = Call_initfunc (nm @ ''-preLoad'')
                \<or> ev = Call_initfunc (nm @ ''-postLoad'') \<or> load_event nm ev"
  have nm: "name e = nm"
    using assms(2) by (simp add: findEntry_loop_Some)
  have "emits_only ?P s (IMPORT_COMPILED_MODULE E module_name nm s)"
    unfolding IMPORT_found [OF assms]
    by (rule emits_only_seq)
      (auto intro: emits_only_mono [OF loadTriggeredModule_emits]
        emits_only_mono [OF found_rest_emits [OF nm]])
  then obtain evs where "trace_of (IMPORT_COMPILED_MODULE E module_name nm s) = trace s @ evs"
    and "list_all ?P evs"
    by (auto simp: emits_only_def)
  moreover from this have "\<forall>x. Import_frozen x \<notin> set evs"
    by (auto simp: list_all_iff dest: load_event_not_frozen)
  ultimately
  have "\<exists>evs. trace_of (IMPORT_COMPILED_MODULE E module_name nm s) = trace s @ evs
            \<and> (\<forall>x. Import_frozen x \<notin> set evs)
            \<and> list_all (\<lambda>ev. ev = Call_initfunc (nm @ ''-preLoad'')
                             \<or> ev = Call_initfunc (nm @ ''-postLoad'') \<or> load_event nm ev) evs"
    by blast
  moreover
  have "IMPORT_COMPILED_MODULE
              (E\<lparr>PyImport_FrozenModules := fz, PyImport_ImportFrozenModule := imp\<rparr>)
              module_name nm s
            = IMPORT_COMPILED_MODULE E module_name nm s"
    using assms
    by (simp add: IMPORT_found loadModule_frozen_env loadTriggeredModule_frozen_env
        cong: outcome.case_cong option.case_cong)
  ultimately show ?thesis by blast
qed

theorem registry_entry_precedes_frozen_witness:
  "''zipimport'' \<in> set (PyImport_FrozenModules demo_env)
   \<and> (\<exists>evs. trace_of (IMPORT_COMPILED_MODULE demo_env ''zipimport'' ''zipimport'' demo_state) = evs
          \<and> Import_frozen ''zipimport'' \<notin> set evs)"
proof -
  have r: "loader_entries demo_state \<noteq> NULL"
    by (simp add: demo_state_def NULL_def)
  have tbl: "tables demo_env (loader_entries demo_state) = demo_table"
    by (simp add: demo_env_def demo_state_def)
  have tr: "trace demo_state = []"
    by (simp add: demo_state_def)
  have e: "findEntry_loop (tables demo_env (loader_entries demo_state)) ''zipimport''
             = Some (demo_table ! 6)"
    by (simp add: tbl demo_table_def)
  have fz: "''zipimport'' \<in> set (PyImport_FrozenModules demo_env)"
    by (simp add: demo_env_def)
  from registry_entry_precedes_frozen [OF r e, of "''zipimport''"] fz tr
  show ?thesis by auto
qed

text \<open>
  C2. Take an entry that is loaded as bytecode, whose blob unmarshals, whose name is not yet
  in the module table and whose path fits \<open>buffer[1024]\<close>. Then \<open>loadModule\<close> puts the module
  object that \<open>PyModule_New\<close> has just made (the object appended to the heap) into the module
  table under the name of the entry before it hands the code object to
  \<open>PyImport_ExecCodeModuleEx\<close>. And the code is run only in an interpreter state whose
  module table holds that object under that name: a host that runs code differently in all
  other states gives the same outcome.
\<close>

theorem bytecode_module_visible_before_exec:
  assumes "\<not> (NUITKA_STANDALONE E \<and> flags e AND NUITKA_SHLIB_FLAG E \<noteq> 0)"
    and "flags e AND NUITKA_BYTECODE_FLAG E \<noteq> 0"
    and "PyMarshal_ReadObjectFromString E (bytecode_str e) (bytecode_size e) = Some code"
    and "modules (py s) (name e) = None"
    and "length (name e) + (if flags e AND NUITKA_PACKAGE_FLAG E \<noteq> 0 then 12 else 3) < 1024"
  shows "(\<exists>rest. trace_of (loadModule E module_name e s) =
           trace s @ Dict_SetItem_modules (name e) (length (heap (py s))) #
             (if flags e AND NUITKA_PACKAGE_FLAG E \<noteq> 0
              then [Object_SetAttr (length (heap (py s))) ''__path__''
                      (Some (Py_List [Py_Str (MAKE_RELATIVE_PATH E
                         (copyModulenameAsPath (SEP E) (name e)))]))]
              else [])
             @ Exec_code (name e) code
                 (MAKE_RELATIVE_PATH E
                    (if flags e AND NUITKA_PACKAGE_FLAG E \<noteq> 0
                     then copyModulenameAsPath (SEP E) (name e) @ [SEP E] @ ''__init__.py''
                     else copyModulenameAsPath (SEP E) (name e) @ ''.py''))
               # rest)
         \<and> (\<forall>X. (\<forall>c f p. modules p (name e) = Some (length (heap (py s)))
                       \<and> length (heap (py s)) < length (heap p) \<longrightarrow>
                       X (name e) c f p = PyImport_ExecCodeModuleEx E (name e) c f p) \<longrightarrow>
                loadModule (E\<lparr>PyImport_ExecCodeModuleEx := X\<rparr>) module_name e s
                  = loadModule E module_name e s)"
  using loadModule_bytecode_trace [OF assms, of "module_name"] loadModule_exec_env [OF assms]
  by blast

theorem bytecode_module_visible_before_exec_witness:
  "(\<exists>rest. trace_of (loadModule demo_env ''app.util'' (demo_table ! 1) demo_state) =
      Dict_SetItem_modules ''app.util'' 1
        # Exec_code ''app.util'' (Code_object 0) ''/opt/dist/app/util.py'' # rest)
   \<and> loadModule demo_env ''app.util'' (demo_table ! 1) demo_state
       = loadModule
           (demo_env\<lparr>PyImport_ExecCodeModuleEx :=
              (\<lambda>nm c f p. if modules p nm = Some 1 then (Some 1, p) else (None, p))\<rparr>)
           ''app.util'' (demo_table ! 1) demo_state"
proof -
  have h1: "\<not> (NUITKA_STANDALONE demo_env \<and> flags (demo_table ! 1) AND NUITKA_SHLIB_FLAG demo_env \<noteq> 0)"
    by (simp add: demo_table_def demo_env_def)
  have h2: "flags (demo_table ! 1) AND NUITKA_BYTECODE_FLAG demo_env \<noteq> 0"
    by (simp add: demo_table_def demo_env_def)
  have h3: "PyMarshal_ReadObjectFromString demo_env (bytecode_str (demo_table ! 1))
              (bytecode_size (demo_table ! 1)) = Some (Code_object 0)"
    by (simp add: demo_table_def demo_env_def)
  have h4: "modules (py demo_state) (name (demo_table ! 1)) = None"
    by (simp add: demo_table_def demo_state_def demo_py_def)
  have h5: "length (name (demo_table ! 1))
              + (if flags (demo_table ! 1) AND NUITKA_PACKAGE_FLAG demo_env \<noteq> 0 then 12 else 3)
            < 1024"
    by (simp add: demo_table_def demo_env_def)
  have agree: "\<forall>c f p. modules p (name (demo_table ! 1)) = Some (length (heap (py demo_state)))
                 \<and> length (heap (py demo_state)) < length (heap p) \<longrightarrow>
                 (if modules p (name (demo_table ! 1)) = Some 1 then (Some 1, p) else (None, p))
                   = PyImport_ExecCodeModuleEx demo_env (name (demo_table ! 1)) c f p"
    by (simp add: demo_table_def demo_env_def demo_state_def demo_py_def)
  have pkg: "\<not> flags (demo_table ! 1) AND NUITKA_PACKAGE_FLAG demo_env \<noteq> 0"
    by (simp add: demo_table_def demo_env_def)
  have vals: "trace demo_state = []" "length (heap (py demo_state)) = 1"
    "name (demo_table ! 1) = ''app.util''"
    "MAKE_RELATIVE_PATH demo_env (copyModulenameAsPath (SEP demo_env) ''app.util'' @ ''.py'')
       = ''/opt/dist/app/util.py''"
    by (simp_all add: demo_table_def demo_state_def demo_py_def demo_env_def SEP_def)
  from bytecode_module_visible_before_exec [OF h1 h2 h3 h4 h5, of "''app.util''"] agree
  show ?thesis
    unfolding vals if_not_P [OF pkg]
    by (auto simp: vals)
qed




end
